theory Spec2Isabelle
  imports Complex_Main
begin

section \<open>JavaScript values used by the positioning engine\<close>

text \<open>
  The service is a Node.js program. Its numbers are IEEE doubles; they are modelled here
  as exact rationals extended with \<open>NaN\<close> and the two infinities, which is what the
  positioning arithmetic (differences, halves, percentages, \<open>Math.min\<close>, \<open>Math.max\<close>,
  \<open>Math.round\<close>) computes whenever the double operations are exact. Strings are lists of
  code units; only the ASCII white-space characters are recognised as white space.
\<close>

datatype jsnum = JNaN | JNegInf | JFin rat | JPosInf

text \<open>A value that may reach \<open>Math.min\<close>: a number, or a string still to be converted.\<close>

datatype jsval = VNum jsnum | VStr string

subsection \<open>Reading numbers from strings: \<open>parseFloat\<close> and \<open>ToNumber\<close>\<close>

definition digit_of :: "char \<Rightarrow> nat option" where
  "digit_of c = map_of
     [(CHR ''0'', 0), (CHR ''1'', 1), (CHR ''2'', 2), (CHR ''3'', 3), (CHR ''4'', 4),
      (CHR ''5'', 5), (CHR ''6'', 6), (CHR ''7'', 7), (CHR ''8'', 8), (CHR ''9'', 9)] c"

definition hex_digit_of :: "char \<Rightarrow> nat option" where
  "hex_digit_of c = (case digit_of c of Some d \<Rightarrow> Some d | None \<Rightarrow> map_of
     [(CHR ''a'', 10), (CHR ''b'', 11), (CHR ''c'', 12), (CHR ''d'', 13), (CHR ''e'', 14),
      (CHR ''f'', 15), (CHR ''A'', 10), (CHR ''B'', 11), (CHR ''C'', 12), (CHR ''D'', 13),
      (CHR ''E'', 14), (CHR ''F'', 15)] c)"

definition is_space :: "char \<Rightarrow> bool" where
  "is_space c \<longleftrightarrow> c \<in> set [CHR '' '', CHR 0x09, CHR 0x0A, CHR 0x0B, CHR 0x0C, CHR 0x0D]"

definition trim :: "string \<Rightarrow> string" where
  "trim s = rev (dropWhile is_space (rev (dropWhile is_space s)))"

fun take_digits :: "string \<Rightarrow> nat list \<times> string" where
  "take_digits [] = ([], [])"
| "take_digits (c # cs) =
     (case digit_of c of
        None \<Rightarrow> ([], c # cs)
      | Some d \<Rightarrow> (case take_digits cs of (ds, r) \<Rightarrow> (d # ds, r)))"

definition digits_value :: "nat \<Rightarrow> nat list \<Rightarrow> nat" where
  "digits_value base ds = foldl (\<lambda>a d. base * a + d) 0 ds"

text \<open>An exponent part \<open>e\<close>, \<open>e+\<close> or \<open>e-\<close> followed by at least one digit; anything else
  is not an exponent and is left unread.\<close>

definition parse_exponent :: "string \<Rightarrow> int \<times> string" where
  "parse_exponent s =
     (case s of
        [] \<Rightarrow> (0, s)
      | c # r \<Rightarrow>
          if c = CHR ''e'' \<or> c = CHR ''E'' then
            (case r of
               [] \<Rightarrow> (0, s)
             | d # r' \<Rightarrow>
                 if d = CHR ''-'' then
                   (case take_digits r' of (ds, rest) \<Rightarrow>
                      if ds = [] then (0, s) else (- int (digits_value 10 ds), rest))
                 else if d = CHR ''+'' then
                   (case take_digits r' of (ds, rest) \<Rightarrow>
                      if ds = [] then (0, s) else (int (digits_value 10 ds), rest))
                 else
                   (case take_digits r of (ds, rest) \<Rightarrow>
                      if ds = [] then (0, s) else (int (digits_value 10 ds), rest)))
          else (0, s))"

definition scale10 :: "rat \<Rightarrow> int \<Rightarrow> rat" where
  "scale10 m e = (if 0 \<le> e then m * 10 ^ nat e else m / 10 ^ nat (- e))"

definition parse_unsigned :: "string \<Rightarrow> (rat \<times> string) option" where
  "parse_unsigned s =
     (case take_digits s of (ip, r1) \<Rightarrow>
        (case r1 of
           [] \<Rightarrow> if ip = [] then None else Some (of_nat (digits_value 10 ip), [])
         | c # r2 \<Rightarrow>
             if c = CHR ''.'' then
               (case take_digits r2 of (fp, r3) \<Rightarrow>
                  if ip = [] \<and> fp = [] then None
                  else (case parse_exponent r3 of (e, r4) \<Rightarrow>
                    Some (scale10 (of_nat (digits_value 10 (ip @ fp)) / 10 ^ length fp) e, r4)))
             else if ip = [] then None
             else (case parse_exponent r1 of (e, r4) \<Rightarrow>
                    Some (scale10 (of_nat (digits_value 10 ip)) e, r4))))"

definition strip_prefix :: "string \<Rightarrow> string \<Rightarrow> string option" where
  "strip_prefix p s = (if take (length p) s = p then Some (drop (length p) s) else None)"

definition parse_magnitude :: "string \<Rightarrow> (jsnum \<times> string) option" where
  "parse_magnitude s =
     (case strip_prefix ''Infinity'' s of
        Some r \<Rightarrow> Some (JPosInf, r)
      | None \<Rightarrow> map_option (\<lambda>(v, r). (JFin v, r)) (parse_unsigned s))"

fun js_neg :: "jsnum \<Rightarrow> jsnum" where
  "js_neg JNaN = JNaN"
| "js_neg JNegInf = JPosInf"
| "js_neg (JFin r) = JFin (- r)"
| "js_neg JPosInf = JNegInf"

text \<open>The longest prefix that is a signed decimal literal, with what follows it.\<close>

definition parse_decimal :: "string \<Rightarrow> (jsnum \<times> string) option" where
  "parse_decimal s =
     (case s of
        [] \<Rightarrow> None
      | c # r \<Rightarrow>
          if c = CHR ''-'' then map_option (\<lambda>(v, t). (js_neg v, t)) (parse_magnitude r)
          else if c = CHR ''+'' then parse_magnitude r
          else parse_magnitude s)"

definition parseFloat :: "string \<Rightarrow> jsnum" where
  "parseFloat s =
     (case parse_decimal (dropWhile is_space s) of None \<Rightarrow> JNaN | Some (v, _) \<Rightarrow> v)"

fun take_radix_digits :: "nat \<Rightarrow> string \<Rightarrow> nat list option" where
  "take_radix_digits base [] = Some []"
| "take_radix_digits base (c # cs) =
     (case hex_digit_of c of
        None \<Rightarrow> None
      | Some d \<Rightarrow> if d < base then map_option ((#) d) (take_radix_digits base cs) else None)"

definition parse_radix :: "nat \<Rightarrow> string \<Rightarrow> jsnum" where
  "parse_radix base s =
     (if s = [] then JNaN
      else case take_radix_digits base s of
             None \<Rightarrow> JNaN
           | Some ds \<Rightarrow> JFin (of_nat (digits_value base ds)))"

text \<open>\<open>ToNumber\<close> on a string: the whole trimmed string has to be a numeric literal.\<close>

definition string_to_number :: "string \<Rightarrow> jsnum" where
  "string_to_number s =
     (let t = trim s in
      if t = [] then JFin 0
      else if take 2 t = ''0x'' \<or> take 2 t = ''0X'' then parse_radix 16 (drop 2 t)
      else if take 2 t = ''0o'' \<or> take 2 t = ''0O'' then parse_radix 8 (drop 2 t)
      else if take 2 t = ''0b'' \<or> take 2 t = ''0B'' then parse_radix 2 (drop 2 t)
      else case parse_decimal t of
             Some (v, []) \<Rightarrow> v
           | _ \<Rightarrow> JNaN)"

fun to_number :: "jsval \<Rightarrow> jsnum" where
  "to_number (VNum n) = n"
| "to_number (VStr s) = string_to_number s"

subsection \<open>\<open>Math.min\<close>, \<open>Math.max\<close>, \<open>Math.round\<close>\<close>

fun Math_min :: "jsnum \<Rightarrow> jsnum \<Rightarrow> jsnum" where
  "Math_min JNaN _ = JNaN"
| "Math_min _ JNaN = JNaN"
| "Math_min JNegInf _ = JNegInf"
| "Math_min _ JNegInf = JNegInf"
| "Math_min JPosInf b = b"
| "Math_min a JPosInf = a"
| "Math_min (JFin a) (JFin b) = JFin (min a b)"

fun Math_max :: "jsnum \<Rightarrow> jsnum \<Rightarrow> jsnum" where
  "Math_max JNaN _ = JNaN"
| "Math_max _ JNaN = JNaN"
| "Math_max JPosInf _ = JPosInf"
| "Math_max _ JPosInf = JPosInf"
| "Math_max JNegInf b = b"
| "Math_max a JNegInf = a"
| "Math_max (JFin a) (JFin b) = JFin (max a b)"

text \<open>\<open>Math.round\<close> rounds to the nearest integer, a tie going up.\<close>

fun Math_round :: "jsnum \<Rightarrow> jsnum" where
  "Math_round (JFin r) = JFin (of_int \<lfloor>r + 1 / 2\<rfloor>)"
| "Math_round n = n"

text \<open>\<open>(p / 100) * d\<close> for a container dimension \<open>d\<close>.\<close>

fun percent_of :: "jsnum \<Rightarrow> int \<Rightarrow> jsnum" where
  "percent_of (JFin p) d = JFin ((p / 100) * of_int d)"
| "percent_of JNaN d = JNaN"
| "percent_of JPosInf d = (if 0 < d then JPosInf else if d < 0 then JNegInf else JNaN)"
| "percent_of JNegInf d = (if 0 < d then JNegInf else if d < 0 then JPosInf else JNaN)"

text \<open>\<open>v || d\<close> on an optional number: \<open>undefined\<close> and \<open>0\<close> are both falsy.\<close>

definition num_or :: "rat option \<Rightarrow> rat \<Rightarrow> rat" where
  "num_or v d = (case v of None \<Rightarrow> d | Some n \<Rightarrow> if n = 0 then d else n)"

text \<open>Truthiness of an optional string: \<open>undefined\<close> and the empty string are falsy;
  the result is the string when it is truthy.\<close>

definition truthy_str :: "string option \<Rightarrow> string option" where
  "truthy_str v = (case v of None \<Rightarrow> None | Some s \<Rightarrow> if s = [] then None else Some s)"

section \<open>Positioning engine\<close>

text \<open>
  Image dimensions are whole pixels. A position configuration is the parsed JSON object
  of the request: \<open>preset\<close> a string, \<open>margin\<close>, \<open>top\<close>, \<open>left\<close> numbers, and \<open>custom\<close>
  an object whose axes are numbers or strings; any of them may be missing.
\<close>

record dims =
  width :: int
  height :: int

datatype axis = AxNum rat | AxStr string

record custom_position =
  c_top :: "axis option"
  c_left :: "axis option"

record position_config =
  pc_preset :: "string option"
  pc_margin :: "rat option"
  pc_custom :: "custom_position option"
  pc_top :: "rat option"
  pc_left :: "rat option"

record image_position =
  ip_top :: jsnum
  ip_left :: jsnum

text \<open>One axis of a custom position:
  \<open>v.toString().includes('%') ? (parseFloat(v) / 100) * dim : v\<close>.\<close>

fun custom_axis :: "axis \<Rightarrow> int \<Rightarrow> jsval" where
  "custom_axis (AxNum n) d = VNum (JFin n)"
| "custom_axis (AxStr s) d =
     (if CHR ''%'' \<in> set s then VNum (percent_of (parseFloat s) d) else VStr s)"

definition num :: "rat \<Rightarrow> jsval" where
  "num r = VNum (JFin r)"

text \<open>The \<open>switch\<close> over the preset name of \<open>calculateUserImagePosition\<close>.\<close>

definition image_preset :: "string \<Rightarrow> rat \<Rightarrow> int \<Rightarrow> int \<Rightarrow> int \<Rightarrow> int \<Rightarrow> jsval \<times> jsval" where
  "image_preset name m W H w h =
     (if name = ''top-left'' then (num m, num m)
      else if name = ''top-center'' then (num m, num (of_int (W - w) / 2))
      else if name = ''top-right'' then (num m, num (of_int (W - w) - m))
      else if name = ''center-left'' then (num (of_int (H - h) / 2), num m)
      else if name = ''center'' then (num (of_int (H - h) / 2), num (of_int (W - w) / 2))
      else if name = ''center-right'' then (num (of_int (H - h) / 2), num (of_int (W - w) - m))
      else if name = ''bottom-left'' then (num (of_int (H - h) - m), num m)
      else if name = ''bottom-center'' then (num (of_int (H - h) - m), num (of_int (W - w) / 2))
      else if name = ''bottom-right'' then (num (of_int (H - h) - m), num (of_int (W - w) - m))
      else (num 100, num 20))"

text \<open>The position before clamping: the \<open>if / else if\<close> chain over preset, custom and
  legacy coordinates, starting from the default \<open>top = 100\<close>, \<open>left = 20\<close>.\<close>

definition user_image_position_raw :: "dims \<Rightarrow> dims \<Rightarrow> position_config \<Rightarrow> jsval \<times> jsval" where
  "user_image_position_raw posterMetadata userImageSize positionConfig =
     (let W = width posterMetadata; H = height posterMetadata;
          w = width userImageSize; h = height userImageSize
      in case truthy_str (pc_preset positionConfig) of
           Some name \<Rightarrow> image_preset name (num_or (pc_margin positionConfig) 20) W H w h
         | None \<Rightarrow>
             (case pc_custom positionConfig of
                Some custom \<Rightarrow>
                  ((case c_top custom of None \<Rightarrow> num 100 | Some v \<Rightarrow> custom_axis v H),
                   (case c_left custom of None \<Rightarrow> num 20 | Some v \<Rightarrow> custom_axis v W))
              | None \<Rightarrow>
                  if pc_top positionConfig \<noteq> None \<or> pc_left positionConfig \<noteq> None then
                    (num (num_or (pc_top positionConfig) 100),
                     num (num_or (pc_left positionConfig) 20))
                  else (num 100, num 20)))"

text \<open>\<open>Math.max(0, Math.min(v, bound))\<close>.\<close>

definition clamp_axis :: "jsval \<Rightarrow> int \<Rightarrow> jsnum" where
  "clamp_axis v bound = Math_max (JFin 0) (Math_min (to_number v) (JFin (of_int bound)))"

definition calculateUserImagePosition :: "dims \<Rightarrow> dims \<Rightarrow> position_config \<Rightarrow> image_position" where
  "calculateUserImagePosition posterMetadata userImageSize positionConfig =
     (case user_image_position_raw posterMetadata userImageSize positionConfig of
        (top0, left0) \<Rightarrow>
          \<lparr> ip_top = Math_round (clamp_axis top0 (height posterMetadata - height userImageSize)),
            ip_left = Math_round (clamp_axis left0 (width posterMetadata - width userImageSize)) \<rparr>)"

subsection \<open>Text anchor position\<close>

record custom_text_position =
  ct_x :: "axis option"
  ct_y :: "axis option"
  ct_align :: "string option"

record text_config =
  tc_preset :: "string option"
  tc_margin :: "rat option"
  tc_fontSize :: "rat option"
  tc_custom :: "custom_text_position option"
  tc_x :: "rat option"
  tc_y :: "rat option"
  tc_align :: "string option"

record text_position =
  tp_x :: jsnum
  tp_y :: jsnum
  textAnchor :: string

text \<open>The \<open>switch\<close> over the preset name of \<open>calculateTextPosition\<close>.\<close>

definition text_preset :: "string \<Rightarrow> rat \<Rightarrow> rat \<Rightarrow> int \<Rightarrow> int \<Rightarrow> jsval \<times> jsval \<times> string" where
  "text_preset name m fontSize W H =
     (if name = ''top-left'' then (num m, num (fontSize + m), ''start'')
      else if name = ''top-center'' then (num (of_int W / 2), num (fontSize + m), ''middle'')
      else if name = ''top-right'' then (num (of_int W - m), num (fontSize + m), ''end'')
      else if name = ''center-left'' then (num m, num (of_int H / 2), ''start'')
      else if name = ''center'' then (num (of_int W / 2), num (of_int H / 2), ''middle'')
      else if name = ''center-right'' then (num (of_int W - m), num (of_int H / 2), ''end'')
      else if name = ''bottom-left'' then (num m, num (of_int H - m), ''start'')
      else if name = ''bottom-center'' then (num (of_int W / 2), num (of_int H - m), ''middle'')
      else if name = ''bottom-right'' then (num (of_int W - m), num (of_int H - m), ''end'')
      else (num (of_int W / 2), num (of_int H - m), ''middle''))"

text \<open>The anchor before clamping, from the default \<open>x = W / 2\<close>, \<open>y = H - 50\<close>,
  \<open>textAnchor = 'middle'\<close>.\<close>

definition text_position_raw :: "dims \<Rightarrow> text_config \<Rightarrow> jsval \<times> jsval \<times> string" where
  "text_position_raw imageMetadata textConfig =
     (let W = width imageMetadata; H = height imageMetadata;
          x0 = of_int W / 2; y0 = of_int H - 50
      in case truthy_str (tc_preset textConfig) of
           Some name \<Rightarrow>
             text_preset name (num_or (tc_margin textConfig) 20) (num_or (tc_fontSize textConfig) 40) W H
         | None \<Rightarrow>
             (case tc_custom textConfig of
                Some custom \<Rightarrow>
                  ((case ct_x custom of None \<Rightarrow> num x0 | Some v \<Rightarrow> custom_axis v W),
                   (case ct_y custom of None \<Rightarrow> num y0 | Some v \<Rightarrow> custom_axis v H),
                   (case truthy_str (ct_align custom) of None \<Rightarrow> ''middle'' | Some a \<Rightarrow> a))
              | None \<Rightarrow>
                  if tc_x textConfig \<noteq> None \<or> tc_y textConfig \<noteq> None then
                    (num (num_or (tc_x textConfig) x0), num (num_or (tc_y textConfig) y0),
                     (case truthy_str (tc_align textConfig) of None \<Rightarrow> ''middle'' | Some a \<Rightarrow> a))
                  else (num x0, num y0, ''middle'')))"

definition calculateTextPosition :: "dims \<Rightarrow> text_config \<Rightarrow> text_position" where
  "calculateTextPosition imageMetadata textConfig =
     (case text_position_raw imageMetadata textConfig of
        (x0, y0, anchor) \<Rightarrow>
          (let fontSize = num_or (tc_fontSize textConfig) 40 in
           \<lparr> tp_x = Math_round (Math_max (JFin 0)
                      (Math_min (to_number x0) (JFin (of_int (width imageMetadata))))),
             tp_y = Math_round (Math_max (JFin fontSize)
                      (Math_min (to_number y0) (JFin (of_int (height imageMetadata))))),
             textAnchor = anchor \<rparr>))"


subsection \<open>Well-formed position specifications and the documented preset table\<close>





text \<open>The nine compass names of the two \<open>switch\<close> statements.\<close>

definition preset_names :: "string list" where
  "preset_names = [''top-left'', ''top-center'', ''top-right'', ''center-left'', ''center'',
     ''center-right'', ''bottom-left'', ''bottom-center'', ''bottom-right'']"

text \<open>The specification's words: margin \<open>m\<close>, 20 if unspecified, and the table of
  \<open>top\<close> and \<open>left\<close> per preset, with \<open>100\<close>, \<open>20\<close> for an unrecognized name.\<close>

definition spec_margin :: "rat option \<Rightarrow> rat" where
  "spec_margin m = (case m of None \<Rightarrow> 20 | Some v \<Rightarrow> v)"

definition spec_overlay_table :: "string \<Rightarrow> rat \<Rightarrow> int \<Rightarrow> int \<Rightarrow> int \<Rightarrow> int \<Rightarrow> rat \<times> rat" where
  "spec_overlay_table name m W H w h =
     (case map_of
        [(''top-left'', (m, m)),
         (''top-center'', (m, of_int (W - w) / 2)),
         (''top-right'', (m, of_int W - of_int w - m)),
         (''center-left'', (of_int (H - h) / 2, m)),
         (''center'', (of_int (H - h) / 2, of_int (W - w) / 2)),
         (''center-right'', (of_int (H - h) / 2, of_int W - of_int w - m)),
         (''bottom-left'', (of_int H - of_int h - m, m)),
         (''bottom-center'', (of_int H - of_int h - m, of_int (W - w) / 2)),
         (''bottom-right'', (of_int H - of_int h - m, of_int W - of_int w - m))] name of
        Some p \<Rightarrow> p
      | None \<Rightarrow> (100, 20))"


section \<open>Bulk-send operation\<close>

text \<open>
  The handler of \<open>POST /api/send-bulk-message\<close>. The database, the object store, the
  image library and the messaging provider are outside the program: each call to them is
  a field of the environment that returns a value or the error it throws, and the handler
  threads the state of the operation collection and a log of the calls it makes. Time
  stamps of the individual results are left out; the completion time and the elapsed time
  are readings supplied by the environment. Fetching the current access token cannot
  throw (its own \<open>catch\<close> falls back to the configured token) and is not a step of the
  model. A positioning or text configuration that parses to \<open>null\<close> is outside the types
  used here.
\<close>

subsection \<open>Data\<close>

record user =
  user_id :: string
  user_image :: string
  user_name :: string
  user_phone :: string
  user_role :: string

text \<open>An error code is a JSON number or a string. \<open>0\<close> and the empty string are falsy.\<close>

datatype code_value = CodeNum int | CodeStr string

definition truthy_code :: "code_value option \<Rightarrow> code_value option" where
  "truthy_code v =
     (case v of
        None \<Rightarrow> None
      | Some (CodeNum n) \<Rightarrow> if n = 0 then None else Some (CodeNum n)
      | Some (CodeStr s) \<Rightarrow> if s = [] then None else Some (CodeStr s))"

text \<open>What the handler reads of a thrown error: \<open>error.message\<close>, \<open>error.code\<close> and, for
  an HTTP error, \<open>error.response\<close> with its status, \<open>data.error.code\<close>,
  \<open>data.error.message\<close> and the \<open>retry-after\<close> header.\<close>

record http_response =
  hr_status :: nat
  hr_error_code :: "code_value option"
  hr_error_message :: "string option"
  hr_retry_after :: "string option"

record js_error =
  err_message :: string
  err_code :: "code_value option"
  err_response :: "http_response option"

definition bindE :: "'e + 'a \<Rightarrow> ('a \<Rightarrow> 'e + 'b) \<Rightarrow> 'e + 'b" where
  "bindE r f = (case r of Inl e \<Rightarrow> Inl e | Inr v \<Rightarrow> f v)"

text \<open>A multipart form field holding a flag arrives as a string; a JSON body may hold a
  boolean.\<close>

datatype form_flag = FlagBool bool | FlagStr string

fun truthy_flag :: "form_flag \<Rightarrow> bool" where
  "truthy_flag (FlagBool b) = b"
| "truthy_flag (FlagStr s) = (s \<noteq> [])"

text \<open>\<open>target_roles\<close> as \<open>JSON.parse\<close> sees it: missing or empty, not JSON (the parse
  throws), JSON that is not an array, or an array. Array elements are kept as strings; an
  element of another type is an invalid role like any unknown name.\<close>

datatype roles_field = RolesAbsent | RolesInvalidJson js_error | RolesNotArray | RolesArray "string list"

datatype 'a json_field = Unparsable | Parsed 'a

record text_settings =
  ts_enabled :: bool
  ts_fontSize :: "rat option"
  ts_position :: "text_config option"

record 'img request =
  target_roles :: roles_field
  message_content :: "string option"
  template_name :: "string option"
  include_user_image :: "form_flag option"
  user_image_position :: "position_config json_field option"
  text_config_json :: "text_settings json_field option"
  posterFile :: "'img option"

datatype message_payload =
    TemplateMessage string string string string
  | TextMessage string string

datatype event =
    EvSave string
  | EvFindUsers "string list"
  | EvS3Upload string
  | EvDownload string
  | EvSend message_payload

datatype delivery_status = StPending | StSuccess | StFailed | StDelivered | StRead

datatype operation_status = OpPending | OpProcessing | OpCompleted | OpFailed

record op_summary =
  totalTargeted :: int
  successCount :: int
  failureCount :: int
  pendingCount :: int
  processingTimeMs :: int

record userResult =
  userId :: string
  userName :: string
  userPhone :: string
  userRole :: string
  status :: delivery_status
  messageId :: "string option"
  error :: "string option"
  errorCode :: "code_value option"
  personalizedImageUrl :: "string option"

record operation =
  operationId :: string
  op_status :: operation_status
  targetRoles :: "string list"
  messageContent :: string
  templateName :: string
  includeUserImage :: form_flag
  summary :: op_summary
  results :: "userResult list"
  completedAt :: "nat option"

datatype reply =
    ValidationError "(string \<times> string) list"
  | NoUsersFound string
  | BulkSuccess op_summary "userResult list" "string list" string
  | WhatsAppApiError nat string "string option"
  | InternalServerError string
  | OperationNotFound string
  | OperationStatus operation

fun http_status :: "reply \<Rightarrow> nat" where
  "http_status (ValidationError _) = 400"
| "http_status (NoUsersFound _) = 404"
| "http_status (BulkSuccess _ _ _ _) = 200"
| "http_status (WhatsAppApiError s _ _) = s"
| "http_status (InternalServerError _) = 500"
| "http_status (OperationNotFound _) = 404"
| "http_status (OperationStatus _) = 200"

subsection \<open>Environment and state\<close>

record 'img env =
  new_operation_id :: string
  save_outcome :: "nat \<Rightarrow> js_error option"
  find_users :: "string list \<Rightarrow> js_error + user list"
  uploadToS3 :: "'img \<Rightarrow> string \<Rightarrow> js_error + string"
  poster_key :: string
  personalized_key :: "string \<Rightarrow> string"
  download_image :: "string \<Rightarrow> js_error + 'img"
  image_metadata :: "'img \<Rightarrow> js_error + dims"
  resize_cover :: "'img \<Rightarrow> int \<Rightarrow> int \<Rightarrow> js_error + 'img"
  composite_over :: "'img \<Rightarrow> 'img \<Rightarrow> image_position \<Rightarrow> js_error + 'img"
  draw_text :: "'img \<Rightarrow> string \<Rightarrow> text_position \<Rightarrow> text_settings \<Rightarrow> js_error + 'img"
  post_message :: "message_payload \<Rightarrow> js_error + string option"
  completion_time :: nat
  elapsed_ms :: int

text \<open>The operation collection keyed by operation id, the number of \<open>save\<close> calls made
  so far (the environment decides the outcome of each), and the log of external calls.\<close>

record world =
  db :: "string \<rightharpoonup> operation"
  saves :: nat
  trace :: "event list"

definition log_event :: "event \<Rightarrow> world \<Rightarrow> world" where
  "log_event ev w = w\<lparr> trace := trace w @ [ev] \<rparr>"

text \<open>\<open>await operation.save()\<close>: the error it throws, if any, and the state after it.\<close>

definition save :: "'img env \<Rightarrow> operation \<Rightarrow> world \<Rightarrow> js_error option \<times> world" where
  "save env operation w =
     (let w1 = log_event (EvSave (operationId operation)) (w\<lparr> saves := Suc (saves w) \<rparr>)
      in case save_outcome env (saves w) of
           None \<Rightarrow> (None, w1\<lparr> db := (db w)(operationId operation \<mapsto> operation) \<rparr>)
         | Some e \<Rightarrow> (Some e, w1))"

subsection \<open>String helpers\<close>

fun join :: "string \<Rightarrow> string list \<Rightarrow> string" where
  "join sep [] = []"
| "join sep [x] = x"
| "join sep (x # y # ys) = x @ sep @ join sep (y # ys)"

text \<open>\<open>s.replace(p, r)\<close> with a string pattern: only the first occurrence is replaced,
  and \<open>$$\<close>, \<open>$&\<close>, \<open>$`\<close> and \<open>$'\<close> in the replacement are expanded.\<close>

fun split_first :: "string \<Rightarrow> string \<Rightarrow> string \<Rightarrow> (string \<times> string) option" where
  "split_first p acc [] = (if p = [] then Some (rev acc, []) else None)"
| "split_first p acc (c # cs) =
     (if take (length p) (c # cs) = p then Some (rev acc, drop (length p) (c # cs))
      else split_first p (c # acc) cs)"

fun expand_replacement :: "string \<Rightarrow> string \<Rightarrow> string \<Rightarrow> string \<Rightarrow> string" where
  "expand_replacement m b a [] = []"
| "expand_replacement m b a [c] = [c]"
| "expand_replacement m b a (c # d # r) =
     (if c = CHR ''$'' \<and> d = CHR ''$'' then CHR ''$'' # expand_replacement m b a r
      else if c = CHR ''$'' \<and> d = CHR ''&'' then m @ expand_replacement m b a r
      else if c = CHR ''$'' \<and> d = CHR 0x60 then b @ expand_replacement m b a r
      else if c = CHR ''$'' \<and> d = CHR 0x27 then a @ expand_replacement m b a r
      else c # expand_replacement m b a (d # r))"

definition js_replace :: "string \<Rightarrow> string \<Rightarrow> string \<Rightarrow> string" where
  "js_replace s p r =
     (case split_first p [] s of
        None \<Rightarrow> s
      | Some (b, a) \<Rightarrow> b @ expand_replacement p b a r @ a)"


subsection \<open>Per-recipient processing\<close>

definition default_image_position :: position_config where
  "default_image_position =
     \<lparr> pc_preset = Some ''center-left'', pc_margin = Some 20, pc_custom = None,
       pc_top = None, pc_left = None \<rparr>"

definition default_text_position :: text_config where
  "default_text_position =
     \<lparr> tc_preset = Some ''bottom-center'', tc_margin = Some 20, tc_fontSize = None,
       tc_custom = None, tc_x = None, tc_y = None, tc_align = None \<rparr>"

definition default_text_settings :: text_settings where
  "default_text_settings =
     \<lparr> ts_enabled = True, ts_fontSize = Some 40, ts_position = Some default_text_position \<rparr>"

text \<open>The request fields after destructuring with their defaults; \<open>JSON.parse\<close> failures
  of the two configurations are caught and replaced by the defaults.\<close>

definition template_name_of :: "'img request \<Rightarrow> string" where
  "template_name_of req = (case template_name req of None \<Rightarrow> ''poster_template'' | Some t \<Rightarrow> t)"

definition flag_of :: "'img request \<Rightarrow> form_flag" where
  "flag_of req = (case include_user_image req of None \<Rightarrow> FlagBool False | Some f \<Rightarrow> f)"

definition position_of :: "'img request \<Rightarrow> position_config" where
  "position_of req =
     (case user_image_position req of
        None \<Rightarrow> default_image_position
      | Some Unparsable \<Rightarrow> default_image_position
      | Some (Parsed c) \<Rightarrow> c)"

definition text_settings_of :: "'img request \<Rightarrow> text_settings" where
  "text_settings_of req =
     (case text_config_json req of
        None \<Rightarrow> default_text_settings
      | Some Unparsable \<Rightarrow> default_text_settings
      | Some (Parsed c) \<Rightarrow> c)"

text \<open>The guard \<open>posterFile && include_user_image\<close>: the poster when both are truthy.\<close>

definition personalizing :: "'img request \<Rightarrow> 'img option" where
  "personalizing req =
     (case posterFile req of
        None \<Rightarrow> None
      | Some poster \<Rightarrow> if truthy_flag (flag_of req) then Some poster else None)"

definition addTextOverlay :: "'img env \<Rightarrow> 'img \<Rightarrow> string \<Rightarrow> text_settings \<Rightarrow> js_error + 'img" where
  "addTextOverlay env imageBuffer text settings =
     bindE (image_metadata env imageBuffer) (\<lambda>metadata.
       let fontSize = (case ts_fontSize settings of None \<Rightarrow> 40 | Some f \<Rightarrow> f);
           position = (case ts_position settings of None \<Rightarrow> default_text_position | Some p \<Rightarrow> p);
           textPosition = calculateTextPosition metadata (position\<lparr> tc_fontSize := Some fontSize \<rparr>)
       in draw_text env imageBuffer text textPosition settings)"

text \<open>Download, resize, place, composite and caption the recipient's image.\<close>

definition create_personalized :: "'img env \<Rightarrow> 'img request \<Rightarrow> 'img \<Rightarrow> user \<Rightarrow> js_error + 'img" where
  "create_personalized env req posterBuffer u =
     bindE (download_image env (user_image u)) (\<lambda>userImage.
     bindE (image_metadata env posterBuffer) (\<lambda>posterMetadata.
     bindE (resize_cover env userImage 250 250) (\<lambda>userImageBuffer.
     bindE (composite_over env posterBuffer userImageBuffer
              (calculateUserImagePosition posterMetadata \<lparr> width = 250, height = 250 \<rparr>
                 (position_of req))) (\<lambda>compositeImage.
       if ts_enabled (text_settings_of req)
       then addTextOverlay env compositeImage (user_name u) (text_settings_of req)
       else Inr compositeImage))))"

text \<open>The body of the \<open>try\<close> block for one recipient: the external calls it makes, the
  personalized image URL if one was recorded, and the message id or the error thrown.\<close>

definition attempt ::
  "'img env \<Rightarrow> 'img request \<Rightarrow> string \<Rightarrow> user \<Rightarrow> event list \<times> string option \<times> (js_error + string option)" where
  "attempt env req message u =
     (case personalizing req of
        Some posterBuffer \<Rightarrow>
          (case create_personalized env req posterBuffer u of
             Inl e \<Rightarrow> ([EvDownload (user_image u)], None, Inl e)
           | Inr compositeImage \<Rightarrow>
               (let personalizedKey = personalized_key env (user_id u) in
                case uploadToS3 env compositeImage personalizedKey of
                  Inl e \<Rightarrow> ([EvDownload (user_image u), EvS3Upload personalizedKey], None, Inl e)
                | Inr imageUrl \<Rightarrow>
                    (let messagePayload = TemplateMessage (user_phone u) (template_name_of req)
                           imageUrl (user_name u)
                     in ([EvDownload (user_image u), EvS3Upload personalizedKey, EvSend messagePayload],
                         Some imageUrl, post_message env messagePayload))))
      | None \<Rightarrow>
          (let messagePayload = TextMessage (user_phone u) (js_replace message ''{{name}}'' (user_name u))
           in ([EvSend messagePayload], None, post_message env messagePayload)))"

text \<open>The \<open>catch\<close> block's choice of error code.\<close>

definition error_code_of :: "js_error \<Rightarrow> code_value" where
  "error_code_of e =
     (case truthy_code (case err_response e of None \<Rightarrow> None | Some r \<Rightarrow> hr_error_code r) of
        Some c \<Rightarrow> c
      | None \<Rightarrow> (case truthy_code (err_code e) of
                  Some c \<Rightarrow> c
                | None \<Rightarrow> CodeStr ''UNKNOWN_ERROR''))"

definition process_user ::
  "'img env \<Rightarrow> 'img request \<Rightarrow> string \<Rightarrow> user \<Rightarrow> operation \<times> userResult list \<times> world
     \<Rightarrow> operation \<times> userResult list \<times> world" where
  "process_user env req message u st =
     (case st of (operation, res, w) \<Rightarrow>
      (case attempt env req message u of (evs, url, outcome) \<Rightarrow>
        (let userResult = \<lparr> userId = user_id u, userName = user_name u, userPhone = user_phone u,
                 userRole = user_role u, status = StPending, messageId = None, error = None,
                 errorCode = None, personalizedImageUrl = url \<rparr>;
             w' = w\<lparr> trace := trace w @ evs \<rparr>;
             s = summary operation
         in case outcome of
              Inr mid \<Rightarrow>
                (operation\<lparr> summary := s\<lparr> successCount := successCount s + 1,
                                             pendingCount := pendingCount s - 1 \<rparr> \<rparr>,
                 res @ [userResult\<lparr> status := StSuccess, messageId := mid \<rparr>], w')
            | Inl e \<Rightarrow>
                (operation\<lparr> summary := s\<lparr> failureCount := failureCount s + 1,
                                             pendingCount := pendingCount s - 1 \<rparr> \<rparr>,
                 res @ [userResult\<lparr> status := StFailed, error := Some (err_message e),
                                     errorCode := Some (error_code_of e) \<rparr>], w'))))"

text \<open>\<open>for (const user of users)\<close>.\<close>

fun process_users ::
  "'img env \<Rightarrow> 'img request \<Rightarrow> string \<Rightarrow> user list \<Rightarrow> operation \<times> userResult list \<times> world
     \<Rightarrow> operation \<times> userResult list \<times> world" where
  "process_users env req message [] st = st"
| "process_users env req message (u # us) st =
     process_users env req message us (process_user env req message u st)"

subsection \<open>The handler\<close>

definition validRoles :: "string list" where
  "validRoles = [''karyakarta'', ''admin'', ''user'', ''manager'']"

text \<open>The outer \<open>catch\<close>: the reply for a thrown error, and the attempt to store the
  operation as failed (an error of that \<open>save\<close> is only logged).\<close>

definition error_reply :: "js_error \<Rightarrow> reply" where
  "error_reply e =
     (case err_response e of
        Some r \<Rightarrow> WhatsAppApiError (hr_status r)
          (case truthy_str (hr_error_message r) of
             None \<Rightarrow> ''Unknown WhatsApp API error'' | Some m \<Rightarrow> m)
          (truthy_str (hr_retry_after r))
      | None \<Rightarrow> InternalServerError (err_message e))"

definition fail_operation :: "'img env \<Rightarrow> operation \<Rightarrow> js_error \<Rightarrow> world \<Rightarrow> reply \<times> world" where
  "fail_operation env operation e w =
     (error_reply e,
      snd (save env
        (operation\<lparr> op_status := OpFailed, completedAt := Some (completion_time env),
                     summary := (summary operation)\<lparr> processingTimeMs := elapsed_ms env \<rparr> \<rparr>) w))"

definition upload_poster :: "'img env \<Rightarrow> 'img request \<Rightarrow> world \<Rightarrow> js_error option \<times> world" where
  "upload_poster env req w =
     (case personalizing req of
        None \<Rightarrow> (None, w)
      | Some poster \<Rightarrow>
          (case uploadToS3 env poster (poster_key env) of
             Inl e \<Rightarrow> (Some e, log_event (EvS3Upload (poster_key env)) w)
           | Inr posterS3Url \<Rightarrow> (None, log_event (EvS3Upload (poster_key env)) w)))"

definition new_operation :: "'img env \<Rightarrow> 'img request \<Rightarrow> string list \<Rightarrow> string \<Rightarrow> operation" where
  "new_operation env req roles message =
     \<lparr> operationId = new_operation_id env, op_status = OpProcessing, targetRoles = roles,
       messageContent = message, templateName = template_name_of req,
       includeUserImage = flag_of req,
       summary = \<lparr> totalTargeted = 0, successCount = 0, failureCount = 0, pendingCount = 0,
                   processingTimeMs = 0 \<rparr>,
       results = [], completedAt = None \<rparr>"

text \<open>The handler after validation, in the order of the source: create and store the
  operation, resolve the recipients, answer at once when there are none, otherwise record
  the totals, upload the poster, run the loop and store the outcome.\<close>

definition targeted :: "operation \<Rightarrow> user list \<Rightarrow> operation" where
  "targeted operation users =
     operation\<lparr> summary := (summary operation)
        \<lparr> totalTargeted := int (length users), pendingCount := int (length users) \<rparr> \<rparr>"

definition completed :: "'img env \<Rightarrow> operation \<Rightarrow> userResult list \<Rightarrow> operation" where
  "completed env operation res =
     operation\<lparr> op_status := OpCompleted, completedAt := Some (completion_time env),
                 summary := (summary operation)\<lparr> processingTimeMs := elapsed_ms env \<rparr>,
                 results := res \<rparr>"

definition finish_bulk ::
  "'img env \<Rightarrow> 'img request \<Rightarrow> string list \<Rightarrow> string \<Rightarrow> user list \<Rightarrow> operation \<Rightarrow> world
     \<Rightarrow> reply \<times> world" where
  "finish_bulk env req roles message users operation w =
     (case process_users env req message users (operation, [], w) of
        (op2, res, w1) \<Rightarrow>
          (case save env (completed env op2 res) w1 of
             (Some e, w2) \<Rightarrow> fail_operation env (completed env op2 res) e w2
           | (None, w2) \<Rightarrow>
               (BulkSuccess (summary (completed env op2 res)) res roles
                  (operationId (completed env op2 res)), w2)))"

definition dispatch_bulk ::
  "'img env \<Rightarrow> 'img request \<Rightarrow> string list \<Rightarrow> string \<Rightarrow> user list \<Rightarrow> operation \<Rightarrow> world
     \<Rightarrow> reply \<times> world" where
  "dispatch_bulk env req roles message users operation w =
     (case save env (targeted operation users) w of
        (Some e, w1) \<Rightarrow> fail_operation env (targeted operation users) e w1
      | (None, w1) \<Rightarrow>
          (case upload_poster env req w1 of
             (Some e, w2) \<Rightarrow> fail_operation env (targeted operation users) e w2
           | (None, w2) \<Rightarrow>
               finish_bulk env req roles message users (targeted operation users) w2))"

definition no_users_found :: "'img env \<Rightarrow> string list \<Rightarrow> operation \<Rightarrow> world \<Rightarrow> reply \<times> world" where
  "no_users_found env roles operation w =
     (let op1 = operation\<lparr> op_status := OpCompleted,
                            completedAt := Some (completion_time env) \<rparr>
      in case save env op1 w of
           (Some e, w1) \<Rightarrow> fail_operation env op1 e w1
         | (None, w1) \<Rightarrow>
             (NoUsersFound (''No users found with roles: '' @ join '', '' roles), w1))"

definition run_bulk :: "'img env \<Rightarrow> 'img request \<Rightarrow> string list \<Rightarrow> string \<Rightarrow> world \<Rightarrow> reply \<times> world" where
  "run_bulk env req roles message w =
     (case save env (new_operation env req roles message) w of
        (Some e, w1) \<Rightarrow> fail_operation env (new_operation env req roles message) e w1
      | (None, w1) \<Rightarrow>
          (case find_users env roles of
             Inl e \<Rightarrow>
               fail_operation env (new_operation env req roles message) e
                 (log_event (EvFindUsers roles) w1)
           | Inr users \<Rightarrow>
               if users = [] then
                 no_users_found env roles (new_operation env req roles message)
                   (log_event (EvFindUsers roles) w1)
               else
                 dispatch_bulk env req roles message users
                   (new_operation env req roles message) (log_event (EvFindUsers roles) w1)))"

text \<open>The whole handler: validation first, every failed check answering at once.\<close>

definition send_bulk_message :: "'img env \<Rightarrow> 'img request \<Rightarrow> world \<Rightarrow> reply \<times> world" where
  "send_bulk_message env req w =
     (case target_roles req of
        RolesInvalidJson e \<Rightarrow> (error_reply e, w)
      | RolesAbsent \<Rightarrow>
          (ValidationError [(''target_roles'', ''At least one role must be specified'')], w)
      | RolesNotArray \<Rightarrow>
          (ValidationError [(''target_roles'', ''At least one role must be specified'')], w)
      | RolesArray roles \<Rightarrow>
          if roles = [] then
            (ValidationError [(''target_roles'', ''At least one role must be specified'')], w)
          else (case message_content req of
            None \<Rightarrow>
              (ValidationError
                 [(''message_content'', ''Message content is required and cannot be empty'')], w)
          | Some message \<Rightarrow>
              if message = [] \<or> trim message = [] then
                (ValidationError
                   [(''message_content'', ''Message content is required and cannot be empty'')], w)
              else if length message > 1000 then
                (ValidationError
                   [(''message_content'', ''Message content cannot exceed 1000 characters'')], w)
              else if filter (\<lambda>role. role \<notin> set validRoles) roles \<noteq> [] then
                (ValidationError
                   [(''target_roles'',
                     ''Invalid roles: '' @ join '', '' (filter (\<lambda>role. role \<notin> set validRoles) roles)
                       @ ''. Valid roles are: '' @ join '', '' validRoles)], w)
              else run_bulk env req roles message w))"

text \<open>\<open>GET /api/message-status/:operationId\<close>.\<close>

definition message_status :: "world \<Rightarrow> string \<Rightarrow> reply" where
  "message_status w opId =
     (case db w opId of
        None \<Rightarrow> OperationNotFound (''Operation with ID '' @ opId @ '' not found'')
      | Some operation \<Rightarrow> OperationStatus operation)"

subsection \<open>The specification's words for a request that must be rejected\<close>

definition roles_list :: "roles_field \<Rightarrow> string list" where
  "roles_list f = (case f of RolesArray rs \<Rightarrow> rs | _ \<Rightarrow> [])"

text \<open>The role list is empty or has a role outside the fixed set, or the message body is
  absent, empty or longer than 1000 characters.\<close>

definition spec_invalid_request :: "'img request \<Rightarrow> bool" where
  "spec_invalid_request req \<longleftrightarrow>
     roles_list (target_roles req) = [] \<or>
     \<not> list_all (\<lambda>r. r \<in> set validRoles) (roles_list (target_roles req)) \<or>
     (case message_content req of None \<Rightarrow> True | Some m \<Rightarrow> m = [] \<or> 1000 < length m)"

definition is_invalid_json :: "roles_field \<Rightarrow> bool" where
  "is_invalid_json f = (case f of RolesInvalidJson _ \<Rightarrow> True | _ \<Rightarrow> False)"

text \<open>The invariant of the summary counters.\<close>

definition summary_balanced :: "op_summary \<Rightarrow> bool" where
  "summary_balanced s \<longleftrightarrow> successCount s + failureCount s + pendingCount s = totalTargeted s"


subsection \<open>A concrete environment\<close>

text \<open>Two administrators; every external call succeeds except that the provider rejects
  the message to the second one with HTTP 401 and error code 0 (the provider's
  authentication error), which the HTTP client reports with its own code
  \<open>ERR_BAD_REQUEST\<close>. Images are numbered.\<close>

definition demo_users :: "user list" where
  "demo_users =
     [\<lparr> user_id = ''u1'', user_image = ''https://img.example/1.png'', user_name = ''Asha'',
        user_phone = ''911'', user_role = ''admin'' \<rparr>,
      \<lparr> user_id = ''u2'', user_image = ''https://img.example/2.png'', user_name = ''Ravi'',
        user_phone = ''922'', user_role = ''admin'' \<rparr>]"

definition auth_error :: js_error where
  "auth_error =
     \<lparr> err_message = ''Request failed with status code 401'',
       err_code = Some (CodeStr ''ERR_BAD_REQUEST''),
       err_response = Some \<lparr> hr_status = 401, hr_error_code = Some (CodeNum 0),
         hr_error_message = Some ''We were unable to authenticate the app user'',
         hr_retry_after = None \<rparr> \<rparr>"

definition demo_post :: "message_payload \<Rightarrow> js_error + string option" where
  "demo_post p =
     (case p of
        TextMessage to body \<Rightarrow> if to = ''922'' then Inl auth_error else Inr (Some ''wamid.1'')
      | TemplateMessage to name link body \<Rightarrow> Inr (Some ''wamid.2''))"

definition demo_env :: "nat env" where
  "demo_env =
     \<lparr> new_operation_id = ''bulk_op_1'',
       save_outcome = (\<lambda>n. None),
       find_users = (\<lambda>roles. Inr demo_users),
       uploadToS3 = (\<lambda>img key. Inr (''https://s3.example/'' @ key)),
       poster_key = ''posters/poster_1.png'',
       personalized_key = (\<lambda>uid. ''personalized/user_'' @ uid @ ''.png''),
       download_image = (\<lambda>url. Inr 1),
       image_metadata = (\<lambda>img. Inr \<lparr> width = 800, height = 600 \<rparr>),
       resize_cover = (\<lambda>img w h. Inr 2),
       composite_over = (\<lambda>base overlay pos. Inr 3),
       draw_text = (\<lambda>img text pos settings. Inr 4),
       post_message = demo_post,
       completion_time = 7,
       elapsed_ms = 1200 \<rparr>"

definition demo_request :: "nat request" where
  "demo_request =
     \<lparr> target_roles = RolesArray [''admin''], message_content = Some ''Hello {{name}}!'',
       template_name = None, include_user_image = None, user_image_position = None,
       text_config_json = None, posterFile = None \<rparr>"

definition empty_world :: world where
  "empty_world = \<lparr> db = Map.empty, saves = 0, trace = [] \<rparr>"

section \<open>Properties of the positioning engine\<close>

subsection \<open>Rounding and clamping\<close>








lemma to_number_num [simp]: "to_number (num r) = JFin r"
  by (simp add: num_def)




lemma calculateUserImagePosition_fst_snd:
  "calculateUserImagePosition P U cfg =
     \<lparr> ip_top = Math_round (clamp_axis (fst (user_image_position_raw P U cfg)) (height P - height U)),
       ip_left = Math_round (clamp_axis (snd (user_image_position_raw P U cfg)) (width P - width U)) \<rparr>"
  by (simp add: calculateUserImagePosition_def split: prod.splits)



subsection \<open>Preset resolution of the image overlay\<close>

lemma image_preset_table:
  "image_preset name m W H w h =
     (num (fst (spec_overlay_table name m W H w h)), num (snd (spec_overlay_table name m W H w h)))"
  by (simp add: image_preset_def spec_overlay_table_def)

lemma num_or_spec_margin: "m \<noteq> Some 0 \<Longrightarrow> num_or m 20 = spec_margin m"
  by (simp add: num_or_def spec_margin_def split: option.splits)

lemma clamp_axis_in_range:
  "0 \<le> r \<Longrightarrow> r \<le> of_int b \<Longrightarrow> clamp_axis (num r) b = JFin r"
  by (simp add: clamp_axis_def)

lemma spec_overlay_table_unrecognized:
  "name \<notin> set preset_names \<Longrightarrow> spec_overlay_table name m W H w h = (100, 20)"
  by (simp add: spec_overlay_table_def preset_names_def)

lemma Math_round_of_int: "Math_round (JFin (of_int n)) = JFin (of_int n)"
proof -
  have "\<lfloor>(of_int n :: rat) + 1 / 2\<rfloor> = n" by (rule floor_unique) auto
  then show ?thesis by simp
qed

text \<open>
  C5, as amended. For a non-empty preset name and a margin that is absent or non-zero, the
  position before clamping is the row of the documented table for that name (with
  \<open>m\<close> the margin, 20 when absent), and the returned position is that row rounded
  whenever the row lies within \<open>[0, H - h]\<close> and \<open>[0, W - w]\<close>. For a name that is none of
  the nine compass names the position before clamping is \<open>top = 100\<close>, \<open>left = 20\<close>, and
  this is what is returned when \<open>H - h \<ge> 100\<close> and \<open>W - w \<ge> 20\<close>.
\<close>

theorem image_presets_resolved:
  assumes preset: "truthy_str (pc_preset cfg) = Some name"
    and margin: "pc_margin cfg \<noteq> Some 0"
  shows "user_image_position_raw P U cfg =
           (num (fst (spec_overlay_table name (spec_margin (pc_margin cfg))
                   (width P) (height P) (width U) (height U))),
            num (snd (spec_overlay_table name (spec_margin (pc_margin cfg))
                   (width P) (height P) (width U) (height U)))) \<and>
         (0 \<le> fst (spec_overlay_table name (spec_margin (pc_margin cfg))
                   (width P) (height P) (width U) (height U)) \<and>
          fst (spec_overlay_table name (spec_margin (pc_margin cfg))
                   (width P) (height P) (width U) (height U)) \<le> of_int (height P - height U) \<and>
          0 \<le> snd (spec_overlay_table name (spec_margin (pc_margin cfg))
                   (width P) (height P) (width U) (height U)) \<and>
          snd (spec_overlay_table name (spec_margin (pc_margin cfg))
                   (width P) (height P) (width U) (height U)) \<le> of_int (width P - width U) \<longrightarrow>
          calculateUserImagePosition P U cfg =
            \<lparr> ip_top = Math_round (JFin (fst (spec_overlay_table name (spec_margin (pc_margin cfg))
                   (width P) (height P) (width U) (height U)))),
              ip_left = Math_round (JFin (snd (spec_overlay_table name (spec_margin (pc_margin cfg))
                   (width P) (height P) (width U) (height U)))) \<rparr>) \<and>
         (name \<notin> set preset_names \<longrightarrow>
            user_image_position_raw P U cfg = (num 100, num 20) \<and>
            (100 \<le> height P - height U \<and> 20 \<le> width P - width U \<longrightarrow>
               calculateUserImagePosition P U cfg = \<lparr> ip_top = JFin 100, ip_left = JFin 20 \<rparr>))"
proof -
  define tbl where "tbl = spec_overlay_table name (spec_margin (pc_margin cfg))
                   (width P) (height P) (width U) (height U)"
  have raw: "user_image_position_raw P U cfg = (num (fst tbl), num (snd tbl))"
    using preset num_or_spec_margin[OF margin]
    by (simp add: user_image_position_raw_def Let_def image_preset_table tbl_def)
  have inr: "calculateUserImagePosition P U cfg =
            \<lparr> ip_top = Math_round (JFin (fst tbl)), ip_left = Math_round (JFin (snd tbl)) \<rparr>"
    if "0 \<le> fst tbl" "fst tbl \<le> of_int (height P - height U)"
       "0 \<le> snd tbl" "snd tbl \<le> of_int (width P - width U)"
    using that by (simp add: calculateUserImagePosition_fst_snd raw clamp_axis_in_range)
  have unrec: "user_image_position_raw P U cfg = (num 100, num 20) \<and>
            (100 \<le> height P - height U \<and> 20 \<le> width P - width U \<longrightarrow>
               calculateUserImagePosition P U cfg = \<lparr> ip_top = JFin 100, ip_left = JFin 20 \<rparr>)"
    if "name \<notin> set preset_names"
  proof -
    have t: "tbl = (100, 20)" using that by (simp add: tbl_def spec_overlay_table_unrecognized)
    have r100: "Math_round (JFin 100) = JFin 100" "Math_round (JFin 20) = JFin 20"
      using Math_round_of_int[of 100] Math_round_of_int[of 20] by simp_all
    show ?thesis using raw inr t r100 by (simp del: Math_round.simps)
  qed
  show ?thesis using raw inr unrec unfolding tbl_def by blast
qed


text \<open>
  C5 as stated fails: on a poster of 800 by 300 with the 250 by 250 overlay, the
  unrecognized preset name \<open>middle\<close> gives \<open>top = 50\<close>, not 100, because the default is
  clamped like every other position.
\<close>

theorem unrecognized_preset_counterexample:
  "''middle'' \<notin> set preset_names \<and>
   calculateUserImagePosition \<lparr>width = 800, height = 300\<rparr> \<lparr>width = 250, height = 250\<rparr>
     \<lparr> pc_preset = Some ''middle'', pc_margin = None, pc_custom = None,
       pc_top = None, pc_left = None \<rparr> = \<lparr> ip_top = JFin 50, ip_left = JFin 20 \<rparr> \<and>
   calculateUserImagePosition \<lparr>width = 800, height = 300\<rparr> \<lparr>width = 250, height = 250\<rparr>
     \<lparr> pc_preset = Some ''middle'', pc_margin = None, pc_custom = None,
       pc_top = None, pc_left = None \<rparr> \<noteq> \<lparr> ip_top = JFin 100, ip_left = JFin 20 \<rparr>"
  by code_simp

text \<open>The theorem at preset \<open>center\<close> on 800 by 600 with a 200 by 200 overlay, which
  returns \<open>top = 200\<close>, \<open>left = 300\<close>, and at an unrecognized name on a poster with room
  for the default.\<close>

theorem image_presets_resolved_witness:
  "truthy_str (Some ''center'') = Some ''center'' \<and> (None :: rat option) \<noteq> Some 0 \<and>
   user_image_position_raw \<lparr>width = 800, height = 600\<rparr> \<lparr>width = 200, height = 200\<rparr>
     \<lparr> pc_preset = Some ''center'', pc_margin = None, pc_custom = None,
       pc_top = None, pc_left = None \<rparr> = (num 200, num 300) \<and>
   calculateUserImagePosition \<lparr>width = 800, height = 600\<rparr> \<lparr>width = 200, height = 200\<rparr>
     \<lparr> pc_preset = Some ''center'', pc_margin = None, pc_custom = None,
       pc_top = None, pc_left = None \<rparr> = \<lparr> ip_top = JFin 200, ip_left = JFin 300 \<rparr> \<and>
   truthy_str (Some ''middle'') = Some ''middle'' \<and> ''middle'' \<notin> set preset_names \<and>
   calculateUserImagePosition \<lparr>width = 800, height = 600\<rparr> \<lparr>width = 250, height = 250\<rparr>
     \<lparr> pc_preset = Some ''middle'', pc_margin = Some 35, pc_custom = None,
       pc_top = None, pc_left = None \<rparr> = \<lparr> ip_top = JFin 100, ip_left = JFin 20 \<rparr>"
proof -
  let ?C = "\<lparr> pc_preset = Some ''center'', pc_margin = None, pc_custom = None,
       pc_top = None, pc_left = None \<rparr>"
  let ?M = "\<lparr> pc_preset = Some ''middle'', pc_margin = Some 35, pc_custom = None,
       pc_top = None, pc_left = None \<rparr>"
  have pc: "truthy_str (pc_preset ?C) = Some ''center''" by (simp add: truthy_str_def)
  have mc: "pc_margin ?C \<noteq> Some 0" by simp
  have pm: "truthy_str (pc_preset ?M) = Some ''middle''" by (simp add: truthy_str_def)
  have mm: "pc_margin ?M \<noteq> Some 0" by simp
  have un: "''middle'' \<notin> set preset_names" by (simp add: preset_names_def)
  have tbl: "spec_overlay_table ''center'' (spec_margin None) 800 600 200 200 = (200, 300)"
    by (simp add: spec_overlay_table_def)
  have r: "Math_round (JFin 200) = JFin 200" "Math_round (JFin 300) = JFin 300"
    using Math_round_of_int[of 200] Math_round_of_int[of 300] by simp_all
  have C: "user_image_position_raw \<lparr>width = 800, height = 600\<rparr> \<lparr>width = 200, height = 200\<rparr> ?C
             = (num 200, num 300) \<and>
           calculateUserImagePosition \<lparr>width = 800, height = 600\<rparr> \<lparr>width = 200, height = 200\<rparr> ?C
             = \<lparr> ip_top = JFin 200, ip_left = JFin 300 \<rparr>"
    using image_presets_resolved[OF pc mc, of "\<lparr>width = 800, height = 600\<rparr>" "\<lparr>width = 200, height = 200\<rparr>"]
    by (simp add: tbl r del: Math_round.simps)
  have M: "calculateUserImagePosition \<lparr>width = 800, height = 600\<rparr> \<lparr>width = 250, height = 250\<rparr> ?M
             = \<lparr> ip_top = JFin 100, ip_left = JFin 20 \<rparr>"
    using image_presets_resolved[OF pm mm, of "\<lparr>width = 800, height = 600\<rparr>" "\<lparr>width = 250, height = 250\<rparr>"] un
    by simp
  show ?thesis using C M un by (simp add: truthy_str_def)
qed

subsection \<open>Legacy coordinates\<close>

text \<open>
  C8. The legacy branch is entered when \<open>top\<close> or \<open>left\<close> is not \<open>undefined\<close>, but it
  assigns \<open>positionConfig.top || top\<close>: a supplied \<open>top = 0\<close> is replaced by the default
  100 (and a supplied text \<open>x = 0\<close> by \<open>W / 2\<close>), while the claim has every supplied
  value used directly.
\<close>

theorem legacy_zero_falls_back:
  "calculateUserImagePosition \<lparr>width = 800, height = 600\<rparr> \<lparr>width = 100, height = 100\<rparr>
     \<lparr> pc_preset = None, pc_margin = None, pc_custom = None,
       pc_top = Some 0, pc_left = Some 50 \<rparr> = \<lparr> ip_top = JFin 100, ip_left = JFin 50 \<rparr> \<and>
   calculateTextPosition \<lparr>width = 800, height = 600\<rparr>
     \<lparr> tc_preset = None, tc_margin = None, tc_fontSize = Some 40, tc_custom = None,
       tc_x = Some 0, tc_y = Some 300, tc_align = Some ''start'' \<rparr> =
     \<lparr> tp_x = JFin 400, tp_y = JFin 300, textAnchor = ''start'' \<rparr>"
  by code_simp

subsection \<open>Preset resolution of the text anchor\<close>








subsection \<open>Custom resolution\<close>

lemma custom_axis_pixels: "custom_axis (AxNum n) d = num n"
  by (simp add: num_def)

lemma custom_axis_percent:
  "CHR ''%'' \<in> set s \<Longrightarrow> parseFloat s = JFin p \<Longrightarrow>
   custom_axis (AxStr s) d = num (p / 100 * of_int d)"
  by (simp add: num_def)

text \<open>A run of decimal digits followed by a percent sign reads as that number.\<close>

lemma digit_not_special:
  assumes "digit_of c = Some d"
  shows "\<not> is_space c" "c \<noteq> CHR ''-''" "c \<noteq> CHR ''+''" "c \<noteq> CHR ''I''" "c \<noteq> CHR ''.''"
  using assms by (auto simp: digit_of_def is_space_def split: if_splits)

lemma parseFloat_percent_digits:
  assumes "take_digits (s @ ''%'') = (ds, ''%'')" and "ds \<noteq> []"
  shows "parseFloat (s @ ''%'') = JFin (of_nat (digits_value 10 ds))"
proof -
  obtain c cs where s: "s @ ''%'' = c # cs" by (cases "s @ ''%''") auto
  from assms s obtain d where d: "digit_of c = Some d"
    by (auto split: option.splits prod.splits)
  note sp = digit_not_special[OF d]
  have inf: "strip_prefix ''Infinity'' (c # cs) = None"
    using sp(4) by (simp add: strip_prefix_def)
  have pe: "parse_exponent ''%'' = (0, ''%'')" by (simp add: parse_exponent_def)
  have pu: "parse_unsigned (c # cs) = Some (of_nat (digits_value 10 ds), ''%'')"
    using assms s pe by (simp add: parse_unsigned_def scale10_def)
  show ?thesis
    using sp(1,2,3) by (simp add: parseFloat_def s parse_decimal_def parse_magnitude_def inf pu)
qed






section \<open>Properties of the bulk-send operation\<close>

subsection \<open>The recipient loop\<close>

lemma trim_Nil [simp]: "trim [] = []"
  by (simp add: trim_def)

lemma invalid_roles_filter:
  "filter (\<lambda>role. role \<notin> set validRoles) roles \<noteq> [] \<longleftrightarrow>
   \<not> list_all (\<lambda>r. r \<in> set validRoles) roles"
  by (induction roles) auto

lemma process_user_summary:
  "summary (fst (process_user env req msg u (operation, res, w))) =
     (case snd (snd (attempt env req msg u)) of
        Inr mid \<Rightarrow> (summary operation)\<lparr> successCount := successCount (summary operation) + 1,
                     pendingCount := pendingCount (summary operation) - 1 \<rparr>
      | Inl e \<Rightarrow> (summary operation)\<lparr> failureCount := failureCount (summary operation) + 1,
                     pendingCount := pendingCount (summary operation) - 1 \<rparr>)"
  by (simp add: process_user_def Let_def split: prod.splits sum.splits)

lemma process_user_counts:
  assumes "process_user env req msg u (operation, res, w) = (operation', res', w')"
  shows "totalTargeted (summary operation') = totalTargeted (summary operation)"
    and "successCount (summary operation') + failureCount (summary operation') =
         successCount (summary operation) + failureCount (summary operation) + 1"
    and "pendingCount (summary operation') = pendingCount (summary operation) - 1"
    and "length res' = length res + 1"
    and "operationId operation' = operationId operation"
  using assms
  by (auto simp: process_user_def Let_def split: prod.splits sum.splits)

lemma process_users_counts:
  assumes "process_users env req msg us (operation, res, w) = (operation', res', w')"
  shows "totalTargeted (summary operation') = totalTargeted (summary operation) \<and>
         successCount (summary operation') + failureCount (summary operation') =
           successCount (summary operation) + failureCount (summary operation) + int (length us) \<and>
         pendingCount (summary operation') = pendingCount (summary operation) - int (length us) \<and>
         length res' = length res + length us \<and>
         operationId operation' = operationId operation"
  using assms
proof (induction us arbitrary: operation res w)
  case Nil
  then show ?case by simp
next
  case (Cons u us)
  obtain o1 r1 w1 where step: "process_user env req msg u (operation, res, w) = (o1, r1, w1)"
    by (metis prod_cases3)
  with Cons.prems have rest: "process_users env req msg us (o1, r1, w1) = (operation', res', w')"
    by simp
  from Cons.IH[OF rest] process_user_counts[OF step] show ?case by simp
qed

lemma process_users_balanced:
  assumes "summary_balanced (summary operation)"
  shows "summary_balanced (summary (fst (process_users env req msg us (operation, res, w))))"
proof -
  obtain o1 r1 w1 where st: "process_users env req msg us (operation, res, w) = (o1, r1, w1)"
    by (metis prod_cases3)
  from process_users_counts[OF st] assms show ?thesis
    by (simp add: st summary_balanced_def)
qed


subsection \<open>When the handler answers with a completed operation\<close>

lemma error_reply_not_success [simp]: "error_reply e \<noteq> BulkSuccess a b c d"
  by (simp add: error_reply_def split: option.splits)

lemma fst_fail_operation [simp]: "fst (fail_operation env operation e w) = error_reply e"
  by (simp add: fail_operation_def)

lemma save_ok:
  "save env operation w = (None, w') \<Longrightarrow>
     save_outcome env (saves w) = None \<and> db w' = (db w)(operationId operation \<mapsto> operation) \<and>
     saves w' = Suc (saves w) \<and> trace w' = trace w @ [EvSave (operationId operation)]"
  by (auto simp: save_def Let_def log_event_def split: option.splits)

lemma not_success_simps [simp]:
  "NoUsersFound m \<noteq> BulkSuccess a b c d"
  "ValidationError x \<noteq> BulkSuccess a b c d"
  by simp_all

lemma finish_bulk_success:
  assumes "fst (finish_bulk env req roles msg users operation w) = BulkSuccess sm res roles' opId"
  shows "res = fst (snd (process_users env req msg users (operation, [], w))) \<and>
         sm = (summary (fst (process_users env req msg users (operation, [], w))))
                \<lparr> processingTimeMs := elapsed_ms env \<rparr> \<and>
         roles' = roles \<and>
         opId = operationId (fst (process_users env req msg users (operation, [], w))) \<and>
         (\<exists>stored. db (snd (finish_bulk env req roles msg users operation w)) opId = Some stored \<and>
            op_status stored = OpCompleted \<and> summary stored = sm \<and> results stored = res)"
proof -
  obtain op2 r2 w1 where loop: "process_users env req msg users (operation, [], w) = (op2, r2, w1)"
    by (metis prod_cases3)
  obtain eo w2 where sv: "save env (completed env op2 r2) w1 = (eo, w2)"
    by (metis surj_pair)
  show ?thesis
  proof (cases eo)
    case None
    with assms loop sv save_ok[of env "completed env op2 r2" w1 w2] show ?thesis
      by (simp add: finish_bulk_def completed_def)
  next
    case (Some e)
    with assms loop sv show ?thesis by (simp add: finish_bulk_def)
  qed
qed


lemma dispatch_bulk_success:
  assumes "fst (dispatch_bulk env req roles msg users operation w) = BulkSuccess sm res roles' opId"
  shows "\<exists>w2. dispatch_bulk env req roles msg users operation w =
           finish_bulk env req roles msg users (targeted operation users) w2"
proof -
  obtain eo w1 where sv: "save env (targeted operation users) w = (eo, w1)"
    by (metis surj_pair)
  obtain po w2 where up: "upload_poster env req w1 = (po, w2)"
    by (metis surj_pair)
  show ?thesis
  proof (cases eo)
    case (Some e)
    with assms sv show ?thesis by (simp add: dispatch_bulk_def)
  next
    case None
    show ?thesis
    proof (cases po)
      case (Some e)
      with assms sv up None show ?thesis by (simp add: dispatch_bulk_def)
    next
      case None': None
      with sv up None have "dispatch_bulk env req roles msg users operation w =
           finish_bulk env req roles msg users (targeted operation users) w2"
        by (simp add: dispatch_bulk_def)
      then show ?thesis by blast
    qed
  qed
qed

lemma no_users_found_not_success [simp]:
  "fst (no_users_found env roles operation w) \<noteq> BulkSuccess a b c d"
  by (simp add: no_users_found_def Let_def split: prod.splits option.splits)

lemma run_bulk_success:
  assumes "fst (run_bulk env req roles msg w) = BulkSuccess sm res roles' opId"
  shows "\<exists>users w2. find_users env roles = Inr users \<and> users \<noteq> [] \<and>
           run_bulk env req roles msg w =
             finish_bulk env req roles msg users
               (targeted (new_operation env req roles msg) users) w2"
proof -
  obtain eo w1 where sv: "save env (new_operation env req roles msg) w = (eo, w1)"
    by (metis surj_pair)
  show ?thesis
  proof (cases eo)
    case (Some e)
    with assms sv show ?thesis by (simp add: run_bulk_def)
  next
    case None
    show ?thesis
    proof (cases "find_users env roles")
      case (Inl e)
      with assms sv None show ?thesis by (simp add: run_bulk_def)
    next
      case (Inr users)
      show ?thesis
      proof (cases "users = []")
        case True
        with assms sv None Inr show ?thesis by (simp add: run_bulk_def)
      next
        case False
        with sv None Inr have eq: "run_bulk env req roles msg w =
            dispatch_bulk env req roles msg users (new_operation env req roles msg)
              (log_event (EvFindUsers roles) w1)"
          by (simp add: run_bulk_def)
        with assms dispatch_bulk_success[of env req roles msg users
            "new_operation env req roles msg" "log_event (EvFindUsers roles) w1" sm res roles' opId]
        obtain w2 where "run_bulk env req roles msg w =
             finish_bulk env req roles msg users
               (targeted (new_operation env req roles msg) users) w2"
          by auto
        with Inr False show ?thesis by blast
      qed
    qed
  qed
qed

lemma send_bulk_message_success:
  assumes "fst (send_bulk_message env req w) = BulkSuccess sm res roles' opId"
  shows "\<exists>roles msg. target_roles req = RolesArray roles \<and> message_content req = Some msg \<and>
           send_bulk_message env req w = run_bulk env req roles msg w"
  using assms
  by (auto simp: send_bulk_message_def split: roles_field.splits option.splits if_splits)


lemma targeted_new_balanced:
  "summary_balanced (summary (targeted (new_operation env req roles msg) users))"
  "totalTargeted (summary (targeted (new_operation env req roles msg) users)) = int (length users)"
  "pendingCount (summary (targeted (new_operation env req roles msg) users)) = int (length users)"
  "successCount (summary (targeted (new_operation env req roles msg) users)) = 0"
  "failureCount (summary (targeted (new_operation env req roles msg) users)) = 0"
  "operationId (targeted (new_operation env req roles msg) users) = new_operation_id env"
  by (simp_all add: targeted_def new_operation_def summary_balanced_def)

lemma process_users_proj:
  "totalTargeted (summary (fst (process_users env req msg us (operation, res, w)))) =
     totalTargeted (summary operation)"
  "successCount (summary (fst (process_users env req msg us (operation, res, w)))) +
   failureCount (summary (fst (process_users env req msg us (operation, res, w)))) =
     successCount (summary operation) + failureCount (summary operation) + int (length us)"
  "pendingCount (summary (fst (process_users env req msg us (operation, res, w)))) =
     pendingCount (summary operation) - int (length us)"
  "length (fst (snd (process_users env req msg us (operation, res, w)))) = length res + length us"
  "operationId (fst (process_users env req msg us (operation, res, w))) = operationId operation"
proof -
  obtain o1 r1 w1 where st: "process_users env req msg us (operation, res, w) = (o1, r1, w1)"
    by (metis prod_cases3)
  note c = process_users_counts[OF st]
  show "totalTargeted (summary (fst (process_users env req msg us (operation, res, w)))) =
     totalTargeted (summary operation)" using c by (simp add: st)
  show "successCount (summary (fst (process_users env req msg us (operation, res, w)))) +
   failureCount (summary (fst (process_users env req msg us (operation, res, w)))) =
     successCount (summary operation) + failureCount (summary operation) + int (length us)"
    using c by (simp add: st)
  show "pendingCount (summary (fst (process_users env req msg us (operation, res, w)))) =
     pendingCount (summary operation) - int (length us)" using c by (simp add: st)
  show "length (fst (snd (process_users env req msg us (operation, res, w)))) = length res + length us"
    using c by (simp add: st)
  show "operationId (fst (process_users env req msg us (operation, res, w))) = operationId operation"
    using c by (simp add: st)
qed

lemma bulk_success_accounting:
  assumes "fst (send_bulk_message env req w) = BulkSuccess sm res roles opId"
  shows "\<exists>users msg w0.
     find_users env roles = Inr users \<and> message_content req = Some msg \<and>
     summary_balanced (summary (targeted (new_operation env req roles msg) users)) \<and>
     (\<forall>k \<le> length users.
        summary_balanced (summary (fst (process_users env req msg (take k users)
           (targeted (new_operation env req roles msg) users, [], w0)))) \<and>
        totalTargeted (summary (fst (process_users env req msg (take k users)
           (targeted (new_operation env req roles msg) users, [], w0)))) = int (length users)) \<and>
     sm = (summary (fst (process_users env req msg users
           (targeted (new_operation env req roles msg) users, [], w0))))
            \<lparr> processingTimeMs := elapsed_ms env \<rparr> \<and>
     res = fst (snd (process_users env req msg users
           (targeted (new_operation env req roles msg) users, [], w0))) \<and>
     length res = length users \<and>
     totalTargeted sm = int (length users) \<and>
     successCount sm + failureCount sm = int (length users) \<and>
     pendingCount sm = 0 \<and>
     (\<exists>operation. db (snd (send_bulk_message env req w)) opId = Some operation \<and>
        op_status operation = OpCompleted \<and> summary operation = sm \<and> results operation = res)"
proof -
  from send_bulk_message_success[OF assms] obtain roles0 msg where
    rq: "target_roles req = RolesArray roles0" "message_content req = Some msg"
    and eq1: "send_bulk_message env req w = run_bulk env req roles0 msg w"
    by blast
  from assms eq1 have s1: "fst (run_bulk env req roles0 msg w) = BulkSuccess sm res roles opId"
    by simp
  from run_bulk_success[OF s1] obtain users w0 where
    fu: "find_users env roles0 = Inr users" "users \<noteq> []"
    and eq2: "run_bulk env req roles0 msg w =
       finish_bulk env req roles0 msg users (targeted (new_operation env req roles0 msg) users) w0"
    by blast
  let ?op1 = "targeted (new_operation env req roles0 msg) users"
  from s1 eq2 have s2: "fst (finish_bulk env req roles0 msg users ?op1 w0) =
      BulkSuccess sm res roles opId" by simp
  note fin = finish_bulk_success[OF s2]
  have r: "roles = roles0" using fin by simp
  have inv: "summary_balanced (summary (fst (process_users env req msg (take k users) (?op1, [], w0)))) \<and>
        totalTargeted (summary (fst (process_users env req msg (take k users) (?op1, [], w0)))) =
          int (length users)" for k
    using process_users_balanced[OF targeted_new_balanced(1)]
    by (simp add: process_users_proj targeted_new_balanced)
  have sm: "sm = (summary (fst (process_users env req msg users (?op1, [], w0))))
            \<lparr> processingTimeMs := elapsed_ms env \<rparr>" using fin by simp
  have res: "res = fst (snd (process_users env req msg users (?op1, [], w0)))" using fin by simp
  have len: "length res = length users" by (simp add: res process_users_proj)
  have tot: "totalTargeted sm = int (length users)"
    by (simp add: sm process_users_proj targeted_new_balanced)
  have sf: "successCount sm + failureCount sm = int (length users)"
    using process_users_proj(2)[of env req msg users ?op1 "[]" w0]
    by (simp add: sm targeted_new_balanced)
  have pend: "pendingCount sm = 0"
    by (simp add: sm process_users_proj targeted_new_balanced)
  have stored: "\<exists>operation. db (snd (send_bulk_message env req w)) opId = Some operation \<and>
        op_status operation = OpCompleted \<and> summary operation = sm \<and> results operation = res"
    using fin unfolding eq1 eq2 by blast
  show ?thesis
    using fu(1) rq(2) targeted_new_balanced(1)[of env req roles0 msg users] inv sm res len tot sf pend stored
    unfolding r by blast
qed


subsection \<open>What is recorded for one recipient\<close>

text \<open>The error code follows the order of the \<open>catch\<close> block, each test being a test for
  a truthy value.\<close>

lemma error_code_precedence:
  "truthy_code (case err_response e of None \<Rightarrow> None | Some r \<Rightarrow> hr_error_code r) = Some c
     \<Longrightarrow> error_code_of e = c"
  "truthy_code (case err_response e of None \<Rightarrow> None | Some r \<Rightarrow> hr_error_code r) = None
     \<Longrightarrow> truthy_code (err_code e) = Some c \<Longrightarrow> error_code_of e = c"
  "truthy_code (case err_response e of None \<Rightarrow> None | Some r \<Rightarrow> hr_error_code r) = None
     \<Longrightarrow> truthy_code (err_code e) = None \<Longrightarrow> error_code_of e = CodeStr ''UNKNOWN_ERROR''"
  by (simp_all add: error_code_of_def)

lemma failed_recipient_recorded:
  assumes "snd (snd (attempt env req msg u)) = Inl e"
  shows "\<exists>r. fst (snd (process_user env req msg u (operation, res, w))) = res @ [r] \<and>
           userId r = user_id u \<and> status r = StFailed \<and> error r = Some (err_message e) \<and>
           errorCode r = Some (error_code_of e) \<and>
           failureCount (summary (fst (process_user env req msg u (operation, res, w)))) =
             failureCount (summary operation) + 1"
  using assms
  by (auto simp: process_user_def Let_def split: prod.splits sum.splits)

lemma sent_recipient_recorded:
  assumes "snd (snd (attempt env req msg u)) = Inr mid"
  shows "\<exists>r. fst (snd (process_user env req msg u (operation, res, w))) = res @ [r] \<and>
           userId r = user_id u \<and> status r = StSuccess \<and> messageId r = mid \<and>
           successCount (summary (fst (process_user env req msg u (operation, res, w)))) =
             successCount (summary operation) + 1"
  using assms
  by (auto simp: process_user_def Let_def split: prod.splits sum.splits)

lemma process_users_results_terminal:
  assumes "\<forall>r \<in> set res. status r = StSuccess \<or> status r = StFailed"
  shows "\<forall>r \<in> set (fst (snd (process_users env req msg us (operation, res, w)))).
           status r = StSuccess \<or> status r = StFailed"
  using assms
proof (induction us arbitrary: operation res w)
  case Nil
  then show ?case by simp
next
  case (Cons u us)
  obtain o1 r1 w1 where step: "process_user env req msg u (operation, res, w) = (o1, r1, w1)"
    by (metis prod_cases3)
  have "\<forall>r \<in> set r1. status r = StSuccess \<or> status r = StFailed"
    using step Cons.prems
    by (auto simp: process_user_def Let_def split: prod.splits sum.splits)
  from Cons.IH[OF this] show ?case by (simp add: step)
qed

lemma process_users_order:
  "map userId (fst (snd (process_users env req msg us (operation, res, w)))) =
     map userId res @ map user_id us"
proof (induction us arbitrary: operation res w)
  case Nil
  then show ?case by simp
next
  case (Cons u us)
  obtain o1 r1 w1 where step: "process_user env req msg u (operation, res, w) = (o1, r1, w1)"
    by (metis prod_cases3)
  have "map userId r1 = map userId res @ [user_id u]"
    using step by (auto simp: process_user_def Let_def split: prod.splits sum.splits)
  with Cons.IH[of o1 r1 w1] show ?case by (simp add: step)
qed

subsection \<open>Failures of recipients do not stop the operation\<close>

text \<open>Whatever the per-recipient calls do, a valid request whose recipients are found,
  whose \<open>save\<close> calls succeed and whose poster upload succeeds is answered with the
  completed operation, one result per recipient in the order of the recipients, each
  \<open>success\<close> or \<open>failed\<close>.\<close>

lemma save_succeeds:
  "save_outcome env (saves w) = None \<Longrightarrow> fst (save env operation w) = None"
  by (simp add: save_def Let_def)

lemma upload_poster_succeeds:
  assumes "case personalizing req of None \<Rightarrow> True
           | Some poster \<Rightarrow> (case uploadToS3 env poster (poster_key env) of Inl e \<Rightarrow> False | Inr url \<Rightarrow> True)"
  shows "fst (upload_poster env req w) = None"
  using assms by (auto simp: upload_poster_def split: option.splits sum.splits)

lemma bulk_completes_despite_failures:
  assumes roles: "target_roles req = RolesArray roles" "roles \<noteq> []"
      "list_all (\<lambda>r. r \<in> set validRoles) roles"
    and msg: "message_content req = Some message" "trim message \<noteq> []" "length message \<le> 1000"
    and saves: "\<forall>n. save_outcome env n = None"
    and found: "find_users env roles = Inr users" "users \<noteq> []"
    and poster: "case personalizing req of None \<Rightarrow> True
           | Some poster \<Rightarrow> (case uploadToS3 env poster (poster_key env) of Inl e \<Rightarrow> False | Inr url \<Rightarrow> True)"
  shows "\<exists>sm res. fst (send_bulk_message env req w) = BulkSuccess sm res roles (new_operation_id env) \<and>
           length res = length users \<and> map userId res = map user_id users \<and>
           (\<forall>r \<in> set res. status r = StSuccess \<or> status r = StFailed) \<and>
           successCount sm + failureCount sm = int (length users) \<and> pendingCount sm = 0"
proof -
  have ne: "message \<noteq> []" using msg(2) by auto
  have valid: "filter (\<lambda>role. role \<notin> set validRoles) roles = []"
    using roles(3) invalid_roles_filter[of roles] by blast
  have eq: "send_bulk_message env req w = run_bulk env req roles message w"
    using roles msg ne valid by (simp add: send_bulk_message_def)
  let ?op0 = "new_operation env req roles message"
  let ?op1 = "targeted ?op0 users"
  define w1 where "w1 = log_event (EvFindUsers roles) (snd (save env ?op0 w))"
  define w2 where "w2 = snd (save env ?op1 w1)"
  define w3 where "w3 = snd (upload_poster env req w2)"
  define st where "st = process_users env req message users (?op1, [], w3)"
  obtain op2 res w4 where st_eq: "st = (op2, res, w4)" by (metis prod_cases3)
  have sv: "fst (save env operation w') = None" for operation w'
    using saves by (simp add: save_succeeds)
  have run: "run_bulk env req roles message w = finish_bulk env req roles message users ?op1 w3"
    using found sv[of ?op0 w] sv[of ?op1 w1] upload_poster_succeeds[OF poster, of w2]
    by (simp add: run_bulk_def dispatch_bulk_def w1_def w2_def w3_def split_beta)
  have fin: "fst (finish_bulk env req roles message users ?op1 w3) =
      BulkSuccess (summary (completed env op2 res)) res roles (operationId (completed env op2 res))"
    using st_eq sv[of "completed env op2 res" w4]
    by (simp add: finish_bulk_def st_def[symmetric] split_beta)
  have res: "res = fst (snd (process_users env req message users (?op1, [], w3)))"
    and op2: "op2 = fst (process_users env req message users (?op1, [], w3))"
    using st_eq by (simp_all add: st_def)
  have id: "operationId (completed env op2 res) = new_operation_id env"
    by (simp add: completed_def op2 process_users_proj targeted_new_balanced)
  have len: "length res = length users" by (simp add: res process_users_proj)
  have ord: "map userId res = map user_id users" by (simp add: res process_users_order)
  have terminal: "\<forall>r \<in> set res. status r = StSuccess \<or> status r = StFailed"
    unfolding res by (rule process_users_results_terminal) simp
  have sf: "successCount (summary (completed env op2 res)) + failureCount (summary (completed env op2 res))
      = int (length users)"
    using process_users_proj(2)[of env req message users ?op1 "[]" w3]
    by (simp add: completed_def op2 targeted_new_balanced)
  have pend: "pendingCount (summary (completed env op2 res)) = 0"
    by (simp add: completed_def op2 process_users_proj targeted_new_balanced)
  show ?thesis
    unfolding eq run fin id using len ord terminal sf pend by blast
qed

subsection \<open>Text-only sending\<close>

text \<open>Without a poster, or with a falsy flag, every recipient is sent the text message and
  no image URL is recorded.\<close>

lemma personalizing_None_iff:
  "personalizing req = None \<longleftrightarrow> posterFile req = None \<or> \<not> truthy_flag (flag_of req)"
  by (simp add: personalizing_def split: option.splits)

lemma attempt_text_only:
  assumes "personalizing req = None"
  shows "attempt env req msg u =
     ([EvSend (TextMessage (user_phone u) (js_replace msg ''{{name}}'' (user_name u)))], None,
      post_message env (TextMessage (user_phone u) (js_replace msg ''{{name}}'' (user_name u))))"
  using assms by (simp add: attempt_def Let_def)

lemma attempt_url_only_when_personalizing:
  "fst (snd (attempt env req msg u)) = Some url \<Longrightarrow> personalizing req \<noteq> None"
  by (auto simp: attempt_def Let_def split: option.splits sum.splits)

lemma process_users_no_image_url:
  assumes "personalizing req = None"
    and "\<forall>r \<in> set res. personalizedImageUrl r = None"
  shows "\<forall>r \<in> set (fst (snd (process_users env req msg us (operation, res, w)))).
           personalizedImageUrl r = None"
  using assms(2)
proof (induction us arbitrary: operation res w)
  case Nil
  then show ?case by simp
next
  case (Cons u us)
  obtain o1 r1 w1 where step: "process_user env req msg u (operation, res, w) = (o1, r1, w1)"
    by (metis prod_cases3)
  have "\<forall>r \<in> set r1. personalizedImageUrl r = None"
    using step Cons.prems attempt_text_only[OF assms(1), of env msg u]
    by (auto simp: process_user_def Let_def split: sum.splits)
  from Cons.IH[OF this] show ?case by (simp add: step)
qed

subsection \<open>The claims about the operation\<close>

text \<open>
  C1. Once the totals are recorded, and after each iteration of the recipient loop (the
  state after the first \<open>k\<close> recipients, for every \<open>k\<close>), \<open>successCount + failureCount +
  pendingCount = totalTargeted\<close>; and when the handler answers with the completed
  operation, the recipients resolved were some list \<open>users\<close>, the result list has
  \<open>length users\<close> entries, \<open>successCount + failureCount = length users\<close>,
  \<open>pendingCount = 0\<close>, and the stored operation is \<open>completed\<close> with that summary and
  those results.
\<close>

theorem bulk_summary_accounting:
  "summary_balanced (summary (targeted (new_operation env req roles msg) users)) \<and>
   (\<forall>k. summary_balanced (summary (fst (process_users env req msg (take k users)
           (targeted (new_operation env req roles msg) users, [], w0)))) \<and>
        totalTargeted (summary (fst (process_users env req msg (take k users)
           (targeted (new_operation env req roles msg) users, [], w0)))) = int (length users)) \<and>
   (fst (send_bulk_message env req w) = BulkSuccess sm res roles opId \<longrightarrow>
      (\<exists>found message w1.
         find_users env roles = Inr found \<and> message_content req = Some message \<and>
         sm = (summary (fst (process_users env req message found
                 (targeted (new_operation env req roles message) found, [], w1))))
                \<lparr> processingTimeMs := elapsed_ms env \<rparr> \<and>
         res = fst (snd (process_users env req message found
                 (targeted (new_operation env req roles message) found, [], w1))) \<and>
         length res = length found \<and>
         totalTargeted sm = int (length found) \<and>
         successCount sm + failureCount sm = int (length found) \<and>
         pendingCount sm = 0 \<and>
         (\<exists>operation. db (snd (send_bulk_message env req w)) opId = Some operation \<and>
            op_status operation = OpCompleted \<and> summary operation = sm \<and>
            results operation = res)))"
proof -
  have init: "summary_balanced (summary (targeted (new_operation env req roles msg) users))"
    by (rule targeted_new_balanced(1))
  have loop: "summary_balanced (summary (fst (process_users env req msg (take k users)
           (targeted (new_operation env req roles msg) users, [], w0)))) \<and>
        totalTargeted (summary (fst (process_users env req msg (take k users)
           (targeted (new_operation env req roles msg) users, [], w0)))) = int (length users)" for k
    using process_users_balanced[OF init] by (simp add: process_users_proj targeted_new_balanced)
  have fin: "\<exists>found message w1.
         find_users env roles = Inr found \<and> message_content req = Some message \<and>
         sm = (summary (fst (process_users env req message found
                 (targeted (new_operation env req roles message) found, [], w1))))
                \<lparr> processingTimeMs := elapsed_ms env \<rparr> \<and>
         res = fst (snd (process_users env req message found
                 (targeted (new_operation env req roles message) found, [], w1))) \<and>
         length res = length found \<and>
         totalTargeted sm = int (length found) \<and>
         successCount sm + failureCount sm = int (length found) \<and>
         pendingCount sm = 0 \<and>
         (\<exists>operation. db (snd (send_bulk_message env req w)) opId = Some operation \<and>
            op_status operation = OpCompleted \<and> summary operation = sm \<and>
            results operation = res)"
    if "fst (send_bulk_message env req w) = BulkSuccess sm res roles opId"
    using bulk_success_accounting[OF that] by blast
  show ?thesis using init loop fin by blast
qed

text \<open>The theorem on the concrete environment: two recipients, the second one failing.\<close>

theorem bulk_summary_accounting_witness:
  "fst (send_bulk_message demo_env demo_request empty_world) =
     BulkSuccess
       \<lparr> totalTargeted = 2, successCount = 1, failureCount = 1, pendingCount = 0,
         processingTimeMs = 1200 \<rparr>
       [\<lparr> userId = ''u1'', userName = ''Asha'', userPhone = ''911'', userRole = ''admin'',
          status = StSuccess, messageId = Some ''wamid.1'', error = None, errorCode = None,
          personalizedImageUrl = None \<rparr>,
        \<lparr> userId = ''u2'', userName = ''Ravi'', userPhone = ''922'', userRole = ''admin'',
          status = StFailed, messageId = None,
          error = Some ''Request failed with status code 401'',
          errorCode = Some (CodeStr ''ERR_BAD_REQUEST''), personalizedImageUrl = None \<rparr>]
       [''admin''] ''bulk_op_1'' \<and>
   (\<forall>k. summary_balanced (summary (fst (process_users demo_env demo_request ''Hello {{name}}!''
         (take k demo_users)
         (targeted (new_operation demo_env demo_request [''admin''] ''Hello {{name}}!'') demo_users,
          [], empty_world))))) \<and>
   (\<exists>operation. db (snd (send_bulk_message demo_env demo_request empty_world)) ''bulk_op_1'' =
        Some operation \<and> op_status operation = OpCompleted \<and>
        length (results operation) = 2 \<and> pendingCount (summary operation) = 0 \<and>
        successCount (summary operation) + failureCount (summary operation) = 2)"
proof -
  let ?sm = "\<lparr> totalTargeted = 2, successCount = 1, failureCount = 1, pendingCount = 0,
         processingTimeMs = 1200 \<rparr>"
  let ?res = "[\<lparr> userId = ''u1'', userName = ''Asha'', userPhone = ''911'', userRole = ''admin'',
          status = StSuccess, messageId = Some ''wamid.1'', error = None, errorCode = None,
          personalizedImageUrl = None \<rparr>,
        \<lparr> userId = ''u2'', userName = ''Ravi'', userPhone = ''922'', userRole = ''admin'',
          status = StFailed, messageId = None,
          error = Some ''Request failed with status code 401'',
          errorCode = Some (CodeStr ''ERR_BAD_REQUEST''), personalizedImageUrl = None \<rparr>]"
  have run: "fst (send_bulk_message demo_env demo_request empty_world) =
     BulkSuccess ?sm ?res [''admin''] ''bulk_op_1''"
    by code_simp
  note inst = bulk_summary_accounting[of demo_env demo_request "[''admin'']" "''Hello {{name}}!''"
      demo_users empty_world empty_world ?sm ?res "''bulk_op_1''"]
  have inv: "\<forall>k. summary_balanced (summary (fst (process_users demo_env demo_request ''Hello {{name}}!''
         (take k demo_users)
         (targeted (new_operation demo_env demo_request [''admin''] ''Hello {{name}}!'') demo_users,
          [], empty_world))))"
    using inst by blast
  from inst run obtain operation where
    "db (snd (send_bulk_message demo_env demo_request empty_world)) ''bulk_op_1'' = Some operation"
    "op_status operation = OpCompleted" "summary operation = ?sm" "results operation = ?res"
    by blast
  then have st: "\<exists>operation. db (snd (send_bulk_message demo_env demo_request empty_world)) ''bulk_op_1'' =
        Some operation \<and> op_status operation = OpCompleted \<and>
        length (results operation) = 2 \<and> pendingCount (summary operation) = 0 \<and>
        successCount (summary operation) + failureCount (summary operation) = 2"
    by simp
  show ?thesis using run inv st by blast
qed

text \<open>
  C2. The \<open>catch\<close> block tests \<open>error.response?.data?.error?.code\<close> for truthiness: when
  the provider answers with its error code \<open>0\<close>, the code recorded for the recipient is
  the transport code \<open>ERR_BAD_REQUEST\<close>, not the provider-supplied one. The loop itself
  goes on and the operation is completed with one success and one failure.
\<close>

theorem provider_code_zero_not_recorded:
  "post_message demo_env (TextMessage ''922'' ''Hello Ravi!'') = Inl auth_error \<and>
   (case err_response auth_error of None \<Rightarrow> None | Some r \<Rightarrow> hr_error_code r) = Some (CodeNum 0) \<and>
   err_code auth_error = Some (CodeStr ''ERR_BAD_REQUEST'') \<and>
   error_code_of auth_error = CodeStr ''ERR_BAD_REQUEST'' \<and>
   fst (send_bulk_message demo_env demo_request empty_world) =
     BulkSuccess
       \<lparr> totalTargeted = 2, successCount = 1, failureCount = 1, pendingCount = 0,
         processingTimeMs = 1200 \<rparr>
       [\<lparr> userId = ''u1'', userName = ''Asha'', userPhone = ''911'', userRole = ''admin'',
          status = StSuccess, messageId = Some ''wamid.1'', error = None, errorCode = None,
          personalizedImageUrl = None \<rparr>,
        \<lparr> userId = ''u2'', userName = ''Ravi'', userPhone = ''922'', userRole = ''admin'',
          status = StFailed, messageId = None,
          error = Some ''Request failed with status code 401'',
          errorCode = Some (CodeStr ''ERR_BAD_REQUEST''), personalizedImageUrl = None \<rparr>]
       [''admin''] ''bulk_op_1''"
  by code_simp

text \<open>
  C10. The guard \<open>posterFile && include_user_image\<close> reads the form field as it arrives.
  A multipart request carries the flag as a string, and the string \<open>false\<close> is truthy:
  with a poster uploaded and the flag sent as \<open>false\<close>, every recipient gets a
  personalized image and the template message, and the image URL is recorded.
\<close>

theorem string_false_flag_personalizes:
  "truthy_flag (FlagStr ''false'') \<and>
   fst (send_bulk_message demo_env
          (demo_request\<lparr> posterFile := Some 0, include_user_image := Some (FlagStr ''false'') \<rparr>)
          empty_world) =
     BulkSuccess
       \<lparr> totalTargeted = 2, successCount = 2, failureCount = 0, pendingCount = 0,
         processingTimeMs = 1200 \<rparr>
       [\<lparr> userId = ''u1'', userName = ''Asha'', userPhone = ''911'', userRole = ''admin'',
          status = StSuccess, messageId = Some ''wamid.2'', error = None, errorCode = None,
          personalizedImageUrl = Some ''https://s3.example/personalized/user_u1.png'' \<rparr>,
        \<lparr> userId = ''u2'', userName = ''Ravi'', userPhone = ''922'', userRole = ''admin'',
          status = StSuccess, messageId = Some ''wamid.2'', error = None, errorCode = None,
          personalizedImageUrl = Some ''https://s3.example/personalized/user_u2.png'' \<rparr>]
       [''admin''] ''bulk_op_1'' \<and>
   trace (snd (send_bulk_message demo_env
          (demo_request\<lparr> posterFile := Some 0, include_user_image := Some (FlagStr ''false'') \<rparr>)
          empty_world)) =
     [EvSave ''bulk_op_1'', EvFindUsers [''admin''], EvSave ''bulk_op_1'',
      EvS3Upload ''posters/poster_1.png'',
      EvDownload ''https://img.example/1.png'', EvS3Upload ''personalized/user_u1.png'',
      EvSend (TemplateMessage ''911'' ''poster_template''
                ''https://s3.example/personalized/user_u1.png'' ''Asha''),
      EvDownload ''https://img.example/2.png'', EvS3Upload ''personalized/user_u2.png'',
      EvSend (TemplateMessage ''922'' ''poster_template''
                ''https://s3.example/personalized/user_u2.png'' ''Ravi''),
      EvSave ''bulk_op_1'']"
  by code_simp

text \<open>
  C3. When \<open>target_roles\<close> is missing or parses as JSON, and the role list is empty or
  has a role outside the fixed set, or the message body is absent, empty or longer than
  1000 characters, the handler answers 400 with a non-empty field-to-reason map and
  leaves the state as it was: no operation is stored and no external call is made, so no
  recipients are resolved.
\<close>

theorem validation_fails_fast:
  assumes json: "\<not> is_invalid_json (target_roles req)"
    and bad: "spec_invalid_request req"
  shows "\<exists>details.
     send_bulk_message env req w = (ValidationError details, w) \<and> details \<noteq> [] \<and>
     http_status (fst (send_bulk_message env req w)) = 400 \<and>
     db (snd (send_bulk_message env req w)) = db w \<and>
     trace (snd (send_bulk_message env req w)) = trace w"
proof -
  have "\<exists>details. send_bulk_message env req w = (ValidationError details, w) \<and> details \<noteq> []"
  proof (cases "target_roles req")
    case RolesAbsent
    then show ?thesis by (simp add: send_bulk_message_def)
  next
    case (RolesInvalidJson e)
    with json show ?thesis by (simp add: is_invalid_json_def)
  next
    case RolesNotArray
    then show ?thesis by (simp add: send_bulk_message_def)
  next
    case (RolesArray roles)
    show ?thesis
    proof (cases "roles = []")
      case True
      with RolesArray show ?thesis by (simp add: send_bulk_message_def)
    next
      case False
      show ?thesis
      proof (cases "message_content req")
        case None
        with RolesArray False show ?thesis by (simp add: send_bulk_message_def)
      next
        case (Some message)
        from bad RolesArray False Some
        have "\<not> list_all (\<lambda>r. r \<in> set validRoles) roles \<or> message = [] \<or> 1000 < length message"
          by (simp add: spec_invalid_request_def roles_list_def)
        with RolesArray False Some show ?thesis
          by (auto simp: send_bulk_message_def invalid_roles_filter)
      qed
    qed
  qed
  then obtain details where
    d: "send_bulk_message env req w = (ValidationError details, w)" "details \<noteq> []"
    by blast
  then show ?thesis by simp
qed

text \<open>The theorem at a message of 1001 characters.\<close>

theorem validation_fails_fast_witness:
  "\<not> is_invalid_json (target_roles (demo_request\<lparr> message_content := Some (replicate 1001 CHR ''a'') \<rparr>)) \<and>
   spec_invalid_request (demo_request\<lparr> message_content := Some (replicate 1001 CHR ''a'') \<rparr>) \<and>
   (\<exists>details. send_bulk_message demo_env
        (demo_request\<lparr> message_content := Some (replicate 1001 CHR ''a'') \<rparr>) empty_world =
      (ValidationError details, empty_world)) \<and>
   db (snd (send_bulk_message demo_env
        (demo_request\<lparr> message_content := Some (replicate 1001 CHR ''a'') \<rparr>) empty_world))
      ''bulk_op_1'' = None \<and>
   trace (snd (send_bulk_message demo_env
        (demo_request\<lparr> message_content := Some (replicate 1001 CHR ''a'') \<rparr>) empty_world)) = []"
proof -
  let ?req = "demo_request\<lparr> message_content := Some (replicate 1001 CHR ''a'') \<rparr>"
  have j: "\<not> is_invalid_json (target_roles ?req)"
    by (simp add: demo_request_def is_invalid_json_def)
  have b: "spec_invalid_request ?req"
    by (simp add: spec_invalid_request_def demo_request_def)
  from validation_fails_fast[OF j b, of demo_env empty_world]
  show ?thesis using j b by (auto simp: empty_world_def)
qed

text \<open>
  C4. For a valid request whose two \<open>save\<close> calls succeed and whose roles match no
  recipient, the handler answers 404 with a message naming the queried roles, and the
  operation stored under the new operation id is \<open>completed\<close> with an all-zero summary
  and no results; the status query returns it.
\<close>

theorem no_recipients_completed_and_not_found:
  assumes roles: "target_roles req = RolesArray roles" "roles \<noteq> []"
      "list_all (\<lambda>r. r \<in> set validRoles) roles"
    and msg: "message_content req = Some message" "trim message \<noteq> []" "length message \<le> 1000"
    and saves: "save_outcome env (saves w) = None" "save_outcome env (Suc (saves w)) = None"
    and none: "find_users env roles = Inr []"
  shows "fst (send_bulk_message env req w) =
           NoUsersFound (''No users found with roles: '' @ join '', '' roles) \<and>
         http_status (fst (send_bulk_message env req w)) = 404 \<and>
         (\<exists>operation.
            db (snd (send_bulk_message env req w)) (new_operation_id env) = Some operation \<and>
            message_status (snd (send_bulk_message env req w)) (new_operation_id env) =
              OperationStatus operation \<and>
            operationId operation = new_operation_id env \<and>
            op_status operation = OpCompleted \<and>
            targetRoles operation = roles \<and>
            summary operation = \<lparr> totalTargeted = 0, successCount = 0, failureCount = 0,
              pendingCount = 0, processingTimeMs = 0 \<rparr> \<and>
            results operation = [])"
proof -
  have ne: "message \<noteq> []" using msg(2) by auto
  have valid: "filter (\<lambda>role. role \<notin> set validRoles) roles = []"
    using roles(3) invalid_roles_filter[of roles] by blast
  have eq: "send_bulk_message env req w = run_bulk env req roles message w"
    using roles msg ne valid by (simp add: send_bulk_message_def)
  let ?op0 = "new_operation env req roles message"
  let ?op1 = "?op0\<lparr> op_status := OpCompleted, completedAt := Some (completion_time env) \<rparr>"
  let ?w1 = "log_event (EvSave (new_operation_id env)) (w\<lparr> saves := Suc (saves w) \<rparr>)
               \<lparr> db := (db w)(new_operation_id env \<mapsto> ?op0) \<rparr>"
  let ?w2 = "log_event (EvFindUsers roles) ?w1"
  let ?w3 = "log_event (EvSave (new_operation_id env)) (?w2\<lparr> saves := Suc (saves ?w2) \<rparr>)
               \<lparr> db := (db ?w2)(new_operation_id env \<mapsto> ?op1) \<rparr>"
  have id0: "operationId ?op0 = new_operation_id env" by (simp add: new_operation_def)
  have s1: "save env ?op0 w = (None, ?w1)"
    using saves(1) by (simp add: save_def Let_def id0)
  have sv2: "saves ?w2 = Suc (saves w)" by (simp add: log_event_def)
  have s2: "save env ?op1 ?w2 = (None, ?w3)"
    using saves(2) by (simp add: save_def Let_def id0 sv2)
  have run: "run_bulk env req roles message w =
      (NoUsersFound (''No users found with roles: '' @ join '', '' roles), ?w3)"
    using s1 s2 none by (simp add: run_bulk_def no_users_found_def Let_def)
  have stored: "db ?w3 (new_operation_id env) = Some ?op1" by (simp add: log_event_def)
  have fields: "operationId ?op1 = new_operation_id env" "op_status ?op1 = OpCompleted"
    "targetRoles ?op1 = roles"
    "summary ?op1 = \<lparr> totalTargeted = 0, successCount = 0, failureCount = 0,
              pendingCount = 0, processingTimeMs = 0 \<rparr>"
    "results ?op1 = []"
    by (simp_all add: new_operation_def)
  have ms: "message_status ?w3 (new_operation_id env) = OperationStatus ?op1"
    using stored by (simp add: message_status_def)
  show ?thesis
    unfolding eq run using stored ms fields by simp
qed


text \<open>The theorem with a directory that has no manager.\<close>

theorem no_recipients_completed_and_not_found_witness:
  "find_users (demo_env\<lparr> find_users := (\<lambda>roles. Inr []) \<rparr>) [''manager''] = Inr [] \<and>
   list_all (\<lambda>r. r \<in> set validRoles) [''manager''] \<and>
   trim ''Hello {{name}}!'' \<noteq> [] \<and> length ''Hello {{name}}!'' \<le> 1000 \<and>
   fst (send_bulk_message (demo_env\<lparr> find_users := (\<lambda>roles. Inr []) \<rparr>)
          (demo_request\<lparr> target_roles := RolesArray [''manager''] \<rparr>) empty_world) =
     NoUsersFound ''No users found with roles: manager'' \<and>
   http_status (fst (send_bulk_message (demo_env\<lparr> find_users := (\<lambda>roles. Inr []) \<rparr>)
          (demo_request\<lparr> target_roles := RolesArray [''manager''] \<rparr>) empty_world)) = 404 \<and>
   (\<exists>operation.
      message_status (snd (send_bulk_message (demo_env\<lparr> find_users := (\<lambda>roles. Inr []) \<rparr>)
          (demo_request\<lparr> target_roles := RolesArray [''manager''] \<rparr>) empty_world)) ''bulk_op_1'' =
        OperationStatus operation \<and>
      op_status operation = OpCompleted \<and> totalTargeted (summary operation) = 0 \<and>
      results operation = [])"
proof -
  let ?env = "demo_env\<lparr> find_users := (\<lambda>roles. Inr []) \<rparr>"
  let ?req = "demo_request\<lparr> target_roles := RolesArray [''manager''] \<rparr>"
  have r1: "target_roles ?req = RolesArray [''manager'']" by simp
  have r2: "[''manager''] \<noteq> []" by simp
  have r3: "list_all (\<lambda>r. r \<in> set validRoles) [''manager'']" by (simp add: validRoles_def)
  have m1: "message_content ?req = Some ''Hello {{name}}!''" by (simp add: demo_request_def)
  have m2: "trim ''Hello {{name}}!'' \<noteq> []" by code_simp
  have m3: "length ''Hello {{name}}!'' \<le> 1000" by simp
  have s1: "save_outcome ?env (saves empty_world) = None" by (simp add: demo_env_def)
  have s2: "save_outcome ?env (Suc (saves empty_world)) = None" by (simp add: demo_env_def)
  have f: "find_users ?env [''manager''] = Inr []" by simp
  have id: "new_operation_id ?env = ''bulk_op_1''" by (simp add: demo_env_def)
  have j: "join '', '' [''manager''] = ''manager''" by simp
  note inst = no_recipients_completed_and_not_found[OF r1 r2 r3 m1 m2 m3 s1 s2 f]
  have a: "fst (send_bulk_message ?env ?req empty_world) =
     NoUsersFound ''No users found with roles: manager''"
    using inst by (simp add: j)
  have b: "http_status (fst (send_bulk_message ?env ?req empty_world)) = 404"
    using inst by blast
  from inst obtain operation where
    "message_status (snd (send_bulk_message ?env ?req empty_world)) (new_operation_id ?env) =
        OperationStatus operation"
    "op_status operation = OpCompleted"
    "summary operation = \<lparr> totalTargeted = 0, successCount = 0, failureCount = 0,
              pendingCount = 0, processingTimeMs = 0 \<rparr>"
    "results operation = []"
    by blast
  then have c: "\<exists>operation.
      message_status (snd (send_bulk_message ?env ?req empty_world)) ''bulk_op_1'' =
        OperationStatus operation \<and>
      op_status operation = OpCompleted \<and> totalTargeted (summary operation) = 0 \<and>
      results operation = []"
    unfolding id by simp
  show ?thesis using f r3 m2 m3 a b c by blast
qed


end
